theory Spec2Isabelle
  imports Main "HOL-Library.Word"
begin

section \<open>Go values used by resources.go\<close>

text \<open>
  A Go \<open>error\<close> is modelled by its message, a \<open>[]byte\<close> by a list of bytes and a
  \<open>map[string]string\<close> by a partial map.
\<close>

type_synonym error = string
type_synonym bytes = "8 word list"
type_synonym params = "string \<rightharpoonup> string"

text \<open>
  A Go call either returns its results or panics. A result pair \<open>(value, error)\<close> is the
  sum \<open>error + value\<close>: every caller in resources.go looks at the value only when the
  error is nil.
\<close>

datatype 'r call = Returns 'r | Panics error

subsection \<open>fmt.Sprintf and strconv.FormatInt\<close>

text \<open>
  \<open>fmt.Sprintf\<close>, for the one verb the templates of resources.go use: each \<open>%s\<close> is
  replaced by the next operand, every other character is copied. A \<open>%s\<close> with no
  operand left prints as Go prints it. Operands left over after the last verb, which Go
  reports in its output, do not occur: resources.go applies each template to as many
  operands as it has verbs.
\<close>

fun Sprintf :: "string \<Rightarrow> string list \<Rightarrow> string" where
  "Sprintf [] args = []"
| "Sprintf [c] args = [c]"
| "Sprintf (c # d # fmt) args =
     (if c = CHR ''%'' \<and> d = CHR ''s''
      then (case args of
              [] \<Rightarrow> ''%!s(MISSING)'' @ Sprintf fmt []
            | a # as \<Rightarrow> a @ Sprintf fmt as)
      else c # Sprintf (d # fmt) args)"

text \<open>
  \<open>strconv.FormatInt(i, base)\<close> for an \<open>int64\<close>: the digits of the absolute value, most
  significant first, after a minus sign when \<open>i\<close> is negative. resources.go passes base
  10 only.
\<close>

definition digit :: "nat \<Rightarrow> char" where
  "digit d = ''0123456789abcdefghijklmnopqrstuvwxyz'' ! d"

function formatBits :: "nat \<Rightarrow> nat \<Rightarrow> string" where
  "formatBits base u =
     (if base < 2 \<or> u < base then [digit u]
      else formatBits base (u div base) @ [digit (u mod base)])"
  by pat_completeness auto
termination
  by (relation "measure (\<lambda>(base, u). u)") auto

declare formatBits.simps [simp del]

definition FormatInt :: "64 word \<Rightarrow> nat \<Rightarrow> string" where
  "FormatInt i base =
     (if sint i < 0 then CHR ''-'' # formatBits base (nat (- sint i))
      else formatBits base (nat (sint i)))"

section \<open>The data of resources.go\<close>

subsection \<open>Canonical URI constants\<close>

definition websitesURI :: string where
  "websitesURI = ''/live/websites''"

definition buttonURI :: string where
  "buttonURI = websitesURI @ ''/button''"

definition campaignURI :: string where
  "campaignURI = websitesURI @ ''/campaign''"

definition appsURI :: string where
  "appsURI = ''/live/apps''"

definition emailURI :: string where
  "emailURI = ''/live/email''"

definition emailButtonURI :: string where
  "emailButtonURI = emailURI @ ''/button''"

definition feedbackURI :: string where
  "feedbackURI = ''%s/%s/feedback''"

definition campaignResultsURI :: string where
  "campaignResultsURI = campaignURI @ ''/%s/results''"

definition campaignStatsURI :: string where
  "campaignStatsURI = campaignURI @ ''/%s/stats''"

subsection \<open>Resources, requests and responses\<close>

text \<open>
  \<open>type resource struct { auth auth }\<close>; the credentials type is declared outside
  resources.go and is a type parameter here. Every resource type (\<open>Buttons\<close>,
  \<open>FeedbackItems\<close>, \<open>Campaigns\<close>, \<open>CampaignResults\<close>, \<open>CampaignStats\<close>, \<open>Apps\<close>,
  \<open>AppFeedbackItems\<close>, \<open>EmailButtons\<close>) is a struct that embeds \<open>resource\<close> and nothing
  else.
\<close>

record 'auth resource =
  auth :: 'auth

type_synonym 'auth Buttons = "'auth resource"
type_synonym 'auth FeedbackItems = "'auth resource"
type_synonym 'auth Campaigns = "'auth resource"
type_synonym 'auth CampaignResults = "'auth resource"
type_synonym 'auth CampaignStats = "'auth resource"
type_synonym 'auth Apps = "'auth resource"
type_synonym 'auth AppFeedbackItems = "'auth resource"
type_synonym 'auth EmailButtons = "'auth resource"

text \<open>
  Modelled from the spec: the struct \<open>Request\<close> is declared outside resources.go, which
  fills its four fields \<open>method\<close>, \<open>auth\<close>, \<open>uri\<close> and \<open>params\<close> (spec section 6: a
  signed GET of a URI with query parameters and credentials). The fields carry the
  prefix \<open>req_\<close> to keep them apart from \<open>resource.auth\<close> and from the parameters named
  \<open>params\<close>.
\<close>

record 'auth Request =
  req_method :: string
  req_auth :: 'auth
  req_uri :: string
  req_params :: params

text \<open>
  Modelled from the spec: the response structs \<open>FeedbackResponse\<close>,
  \<open>CampaignResultResponse\<close>, \<open>CampaignStatsResponse\<close> and \<open>AppFeedbackResponse\<close> are
  declared outside resources.go, which reads three fields of each: \<open>Items\<close>, \<open>HasMore\<close>
  and \<open>LastTimestamp\<close> (spec sections 3 and 6: an ordered sequence of items, a
  continuation flag and a signed 64-bit watermark). The item type is a parameter.
\<close>

record 'item Response =
  Items :: "'item list"
  HasMore :: bool
  LastTimestamp :: "64 word"

type_synonym 'item FeedbackResponse = "'item Response"
type_synonym 'item CampaignResultResponse = "'item Response"
type_synonym 'item CampaignStatsResponse = "'item Response"
type_synonym 'item AppFeedbackResponse = "'item Response"

section \<open>Effects\<close>

text \<open>
  What a run does to the outside is a list of events in the order they happen: a
  transport request is issued (\<open>Fetch\<close>), the transport answers (\<open>Reply\<close>), an item is
  handed to the receiver of the channel (\<open>Send\<close>: the channel of \<open>Iterate\<close> is made
  without a buffer, so a send ends when the consumer has received the item), the channel
  is closed (\<open>Close\<close>). Every function below returns its result, the events it caused
  and the state of the remote service after it.
\<close>

datatype ('item, 'req) event = Fetch 'req | Reply "error + bytes" | Send 'item | Close

type_synonym ('item, 'auth) events = "('item, 'auth Request) event list"

abbreviation outcome_of :: "'r \<times> 'e \<times> 'w \<Rightarrow> 'r" where
  "outcome_of x \<equiv> fst x"

abbreviation events_of :: "'r \<times> 'e \<times> 'w \<Rightarrow> 'e" where
  "events_of x \<equiv> fst (snd x)"

abbreviation world_of :: "'r \<times> 'e \<times> 'w \<Rightarrow> 'w" where
  "world_of x \<equiv> snd (snd x)"

text \<open>
  Modelled from the spec: the method \<open>Request.Get\<close> is defined outside resources.go
  (spec section 6: \<open>doGet(uri, params, auth) -> (bytes, error)\<close>). The remote service is
  a parameter: a function \<open>http\<close> from its state and the request to the answer and its
  next state.
\<close>

type_synonym ('w, 'auth) transport = "'w \<Rightarrow> 'auth Request \<Rightarrow> (error + bytes) \<times> 'w"

definition Request_Get ::
  "('w, 'auth) transport \<Rightarrow> 'auth Request \<Rightarrow> 'w \<Rightarrow> (error + bytes) \<times> ('item, 'auth) events \<times> 'w"
where
  "Request_Get http request w =
     (case http w request of (r, w') \<Rightarrow> (r, [Fetch request, Reply r], w'))"

section \<open>The Get methods\<close>

text \<open>
  Each \<open>Get\<close> builds its request, calls the transport, panics on a transport error and
  otherwise returns what the decoder of its response type returns. The decoders
  (\<open>NewButtonResponse\<close>, \<open>NewFeedbackResponse\<close>, ...) are defined outside resources.go
  and are parameters.
\<close>

definition Buttons_Get ::
  "('w, 'auth) transport \<Rightarrow> (bytes \<Rightarrow> error + 'resp) \<Rightarrow> 'auth Buttons \<Rightarrow> params \<Rightarrow> 'w
     \<Rightarrow> (error + 'resp) call \<times> ('item, 'auth) events \<times> 'w"
where
  "Buttons_Get http NewButtonResponse b params w =
     (let request = \<lparr>req_method = ''GET'', req_auth = auth b, req_uri = buttonURI,
                     req_params = params\<rparr>
      in case Request_Get http request w of
           (Inl err, evs, w') \<Rightarrow> (Panics err, evs, w')
         | (Inr data, evs, w') \<Rightarrow> (Returns (NewButtonResponse data), evs, w'))"

definition FeedbackItems_Get ::
  "('w, 'auth) transport \<Rightarrow> (bytes \<Rightarrow> error + 'item FeedbackResponse) \<Rightarrow> 'auth FeedbackItems
     \<Rightarrow> string \<Rightarrow> params \<Rightarrow> 'w
     \<Rightarrow> (error + 'item FeedbackResponse) call \<times> ('item, 'auth) events \<times> 'w"
where
  "FeedbackItems_Get http NewFeedbackResponse f buttonID params w =
     (let uri = Sprintf feedbackURI [buttonURI, buttonID];
          request = \<lparr>req_method = ''GET'', req_auth = auth f, req_uri = uri,
                     req_params = params\<rparr>
      in case Request_Get http request w of
           (Inl err, evs, w') \<Rightarrow> (Panics err, evs, w')
         | (Inr data, evs, w') \<Rightarrow> (Returns (NewFeedbackResponse data), evs, w'))"

definition Campaigns_Get ::
  "('w, 'auth) transport \<Rightarrow> (bytes \<Rightarrow> error + 'resp) \<Rightarrow> 'auth Campaigns \<Rightarrow> params \<Rightarrow> 'w
     \<Rightarrow> (error + 'resp) call \<times> ('item, 'auth) events \<times> 'w"
where
  "Campaigns_Get http NewCampaignResponse c params w =
     (let request = \<lparr>req_method = ''GET'', req_auth = auth c, req_uri = campaignURI,
                     req_params = params\<rparr>
      in case Request_Get http request w of
           (Inl err, evs, w') \<Rightarrow> (Panics err, evs, w')
         | (Inr data, evs, w') \<Rightarrow> (Returns (NewCampaignResponse data), evs, w'))"

definition CampaignResults_Get ::
  "('w, 'auth) transport \<Rightarrow> (bytes \<Rightarrow> error + 'item CampaignResultResponse)
     \<Rightarrow> 'auth CampaignResults \<Rightarrow> string \<Rightarrow> params \<Rightarrow> 'w
     \<Rightarrow> (error + 'item CampaignResultResponse) call \<times> ('item, 'auth) events \<times> 'w"
where
  "CampaignResults_Get http NewCampaignResultResponse r campaignID params w =
     (let uri = Sprintf campaignResultsURI [campaignID];
          request = \<lparr>req_method = ''GET'', req_auth = auth r, req_uri = uri,
                     req_params = params\<rparr>
      in case Request_Get http request w of
           (Inl err, evs, w') \<Rightarrow> (Panics err, evs, w')
         | (Inr data, evs, w') \<Rightarrow> (Returns (NewCampaignResultResponse data), evs, w'))"

definition CampaignStats_Get ::
  "('w, 'auth) transport \<Rightarrow> (bytes \<Rightarrow> error + 'item CampaignStatsResponse)
     \<Rightarrow> 'auth CampaignStats \<Rightarrow> string \<Rightarrow> params \<Rightarrow> 'w
     \<Rightarrow> (error + 'item CampaignStatsResponse) call \<times> ('item, 'auth) events \<times> 'w"
where
  "CampaignStats_Get http NewCampaignStatsResponse cs campaignID params w =
     (let uri = Sprintf campaignStatsURI [campaignID];
          request = \<lparr>req_method = ''GET'', req_auth = auth cs, req_uri = uri,
                     req_params = params\<rparr>
      in case Request_Get http request w of
           (Inl err, evs, w') \<Rightarrow> (Panics err, evs, w')
         | (Inr data, evs, w') \<Rightarrow> (Returns (NewCampaignStatsResponse data), evs, w'))"

definition Apps_Get ::
  "('w, 'auth) transport \<Rightarrow> (bytes \<Rightarrow> error + 'resp) \<Rightarrow> 'auth Apps \<Rightarrow> params \<Rightarrow> 'w
     \<Rightarrow> (error + 'resp) call \<times> ('item, 'auth) events \<times> 'w"
where
  "Apps_Get http NewAppResponse a params w =
     (let request = \<lparr>req_method = ''GET'', req_auth = auth a, req_uri = appsURI,
                     req_params = params\<rparr>
      in case Request_Get http request w of
           (Inl err, evs, w') \<Rightarrow> (Panics err, evs, w')
         | (Inr data, evs, w') \<Rightarrow> (Returns (NewAppResponse data), evs, w'))"

definition AppFeedbackItems_Get ::
  "('w, 'auth) transport \<Rightarrow> (bytes \<Rightarrow> error + 'item AppFeedbackResponse)
     \<Rightarrow> 'auth AppFeedbackItems \<Rightarrow> string \<Rightarrow> params \<Rightarrow> 'w
     \<Rightarrow> (error + 'item AppFeedbackResponse) call \<times> ('item, 'auth) events \<times> 'w"
where
  "AppFeedbackItems_Get http NewAppFeedbackResponse af appID params w =
     (let uri = Sprintf feedbackURI [appsURI, appID];
          request = \<lparr>req_method = ''GET'', req_auth = auth af, req_uri = uri,
                     req_params = params\<rparr>
      in case Request_Get http request w of
           (Inl err, evs, w') \<Rightarrow> (Panics err, evs, w')
         | (Inr data, evs, w') \<Rightarrow> (Returns (NewAppFeedbackResponse data), evs, w'))"

definition EmailButtons_Get ::
  "('w, 'auth) transport \<Rightarrow> (bytes \<Rightarrow> error + 'resp) \<Rightarrow> 'auth EmailButtons \<Rightarrow> params \<Rightarrow> 'w
     \<Rightarrow> (error + 'resp) call \<times> ('item, 'auth) events \<times> 'w"
where
  "EmailButtons_Get http NewEmailButtonResponse eb params w =
     (let request = \<lparr>req_method = ''GET'', req_auth = auth eb, req_uri = emailButtonURI,
                     req_params = params\<rparr>
      in case Request_Get http request w of
           (Inl err, evs, w') \<Rightarrow> (Panics err, evs, w')
         | (Inr data, evs, w') \<Rightarrow> (Returns (NewEmailButtonResponse data), evs, w'))"

section \<open>The workers and Iterate\<close>

text \<open>
  How the chain of worker goroutines of one stream ends: the channel is closed, a
  goroutine panics (which ends the whole Go process), or the chain is still running
  (\<open>Pending\<close>).
\<close>

datatype outcome = Closed | Panicked error | Pending

text \<open>
  A worker sends the items of its page in order, closes the channel when \<open>HasMore\<close> is
  false, and otherwise fetches the next page with \<open>since\<close> set to the page's
  \<open>LastTimestamp\<close>, starts its successor with \<open>go\<close> and returns: the body of its
  \<open>for\<close> loop runs once. The successor is the recursive call. The chain need not end
  (a service may answer \<open>HasMore\<close> forever), so the first argument bounds the number of
  workers the model follows; with none left the result is \<open>Pending\<close>, with the events
  up to there. The channel is the one channel of the run, where the \<open>Send\<close> and \<open>Close\<close>
  events happen. A send blocks until the consumer receives: the events are those of a
  run whose consumer keeps receiving.
\<close>

fun items ::
  "nat \<Rightarrow> ('w, 'auth) transport \<Rightarrow> (bytes \<Rightarrow> error + 'item FeedbackResponse)
     \<Rightarrow> 'item FeedbackResponse \<Rightarrow> 'auth FeedbackItems \<Rightarrow> string \<Rightarrow> 'w
     \<Rightarrow> outcome \<times> ('item, 'auth) events \<times> 'w"
where
  "items 0 http NewFeedbackResponse resp f buttonID w = (Pending, [], w)"
| "items (Suc n) http NewFeedbackResponse resp f buttonID w =
     (let sent = map Send (Items resp) in
      if \<not> HasMore resp then (Closed, sent @ [Close], w)
      else
        let params = [''since'' \<mapsto> FormatInt (LastTimestamp resp) 10] in
        case FeedbackItems_Get http NewFeedbackResponse f buttonID params w of
          (Panics err, evs, w') \<Rightarrow> (Panicked err, sent @ evs, w')
        | (Returns (Inl err), evs, w') \<Rightarrow> (Panicked err, sent @ evs, w')
        | (Returns (Inr resp'), evs, w') \<Rightarrow>
            (case items n http NewFeedbackResponse resp' f buttonID w' of
               (out, tr, w'') \<Rightarrow> (out, sent @ evs @ tr, w'')))"

fun campaignResults ::
  "nat \<Rightarrow> ('w, 'auth) transport \<Rightarrow> (bytes \<Rightarrow> error + 'item CampaignResultResponse)
     \<Rightarrow> 'item CampaignResultResponse \<Rightarrow> 'auth CampaignResults \<Rightarrow> string \<Rightarrow> 'w
     \<Rightarrow> outcome \<times> ('item, 'auth) events \<times> 'w"
where
  "campaignResults 0 http NewCampaignResultResponse resp r campaignID w = (Pending, [], w)"
| "campaignResults (Suc n) http NewCampaignResultResponse resp r campaignID w =
     (let sent = map Send (Items resp) in
      if \<not> HasMore resp then (Closed, sent @ [Close], w)
      else
        let params = [''since'' \<mapsto> FormatInt (LastTimestamp resp) 10] in
        case CampaignResults_Get http NewCampaignResultResponse r campaignID params w of
          (Panics err, evs, w') \<Rightarrow> (Panicked err, sent @ evs, w')
        | (Returns (Inl err), evs, w') \<Rightarrow> (Panicked err, sent @ evs, w')
        | (Returns (Inr resp'), evs, w') \<Rightarrow>
            (case campaignResults n http NewCampaignResultResponse resp' r campaignID w' of
               (out, tr, w'') \<Rightarrow> (out, sent @ evs @ tr, w'')))"

fun campaignStats ::
  "nat \<Rightarrow> ('w, 'auth) transport \<Rightarrow> (bytes \<Rightarrow> error + 'item CampaignStatsResponse)
     \<Rightarrow> 'item CampaignStatsResponse \<Rightarrow> 'auth CampaignStats \<Rightarrow> string \<Rightarrow> 'w
     \<Rightarrow> outcome \<times> ('item, 'auth) events \<times> 'w"
where
  "campaignStats 0 http NewCampaignStatsResponse resp cs campaignID w = (Pending, [], w)"
| "campaignStats (Suc n) http NewCampaignStatsResponse resp cs campaignID w =
     (let sent = map Send (Items resp) in
      if \<not> HasMore resp then (Closed, sent @ [Close], w)
      else
        let params = [''since'' \<mapsto> FormatInt (LastTimestamp resp) 10] in
        case CampaignStats_Get http NewCampaignStatsResponse cs campaignID params w of
          (Panics err, evs, w') \<Rightarrow> (Panicked err, sent @ evs, w')
        | (Returns (Inl err), evs, w') \<Rightarrow> (Panicked err, sent @ evs, w')
        | (Returns (Inr resp'), evs, w') \<Rightarrow>
            (case campaignStats n http NewCampaignStatsResponse resp' cs campaignID w' of
               (out, tr, w'') \<Rightarrow> (out, sent @ evs @ tr, w'')))"

fun appItems ::
  "nat \<Rightarrow> ('w, 'auth) transport \<Rightarrow> (bytes \<Rightarrow> error + 'item AppFeedbackResponse)
     \<Rightarrow> 'item AppFeedbackResponse \<Rightarrow> 'auth AppFeedbackItems \<Rightarrow> string \<Rightarrow> 'w
     \<Rightarrow> outcome \<times> ('item, 'auth) events \<times> 'w"
where
  "appItems 0 http NewAppFeedbackResponse resp af appID w = (Pending, [], w)"
| "appItems (Suc n) http NewAppFeedbackResponse resp af appID w =
     (let sent = map Send (Items resp) in
      if \<not> HasMore resp then (Closed, sent @ [Close], w)
      else
        let params = [''since'' \<mapsto> FormatInt (LastTimestamp resp) 10] in
        case AppFeedbackItems_Get http NewAppFeedbackResponse af appID params w of
          (Panics err, evs, w') \<Rightarrow> (Panicked err, sent @ evs, w')
        | (Returns (Inl err), evs, w') \<Rightarrow> (Panicked err, sent @ evs, w')
        | (Returns (Inr resp'), evs, w') \<Rightarrow>
            (case appItems n http NewAppFeedbackResponse resp' af appID w' of
               (out, tr, w'') \<Rightarrow> (out, sent @ evs @ tr, w'')))"

text \<open>
  \<open>Iterate\<close> fetches the first page on the caller's goroutine and panics when \<open>Get\<close>
  returns an error; otherwise it makes the channel, starts the first worker and returns
  the channel. \<open>Returns out\<close> stands for the returned channel, with \<open>out\<close> the way the
  workers behind it end.
\<close>

definition FeedbackItems_Iterate ::
  "nat \<Rightarrow> ('w, 'auth) transport \<Rightarrow> (bytes \<Rightarrow> error + 'item FeedbackResponse)
     \<Rightarrow> 'auth FeedbackItems \<Rightarrow> string \<Rightarrow> params \<Rightarrow> 'w
     \<Rightarrow> outcome call \<times> ('item, 'auth) events \<times> 'w"
where
  "FeedbackItems_Iterate n http NewFeedbackResponse f buttonID params w =
     (case FeedbackItems_Get http NewFeedbackResponse f buttonID params w of
        (Panics err, evs, w') \<Rightarrow> (Panics err, evs, w')
      | (Returns (Inl err), evs, w') \<Rightarrow> (Panics err, evs, w')
      | (Returns (Inr resp), evs, w') \<Rightarrow>
          (case items n http NewFeedbackResponse resp f buttonID w' of
             (out, tr, w'') \<Rightarrow> (Returns out, evs @ tr, w'')))"

definition CampaignResults_Iterate ::
  "nat \<Rightarrow> ('w, 'auth) transport \<Rightarrow> (bytes \<Rightarrow> error + 'item CampaignResultResponse)
     \<Rightarrow> 'auth CampaignResults \<Rightarrow> string \<Rightarrow> params \<Rightarrow> 'w
     \<Rightarrow> outcome call \<times> ('item, 'auth) events \<times> 'w"
where
  "CampaignResults_Iterate n http NewCampaignResultResponse r campaignID params w =
     (case CampaignResults_Get http NewCampaignResultResponse r campaignID params w of
        (Panics err, evs, w') \<Rightarrow> (Panics err, evs, w')
      | (Returns (Inl err), evs, w') \<Rightarrow> (Panics err, evs, w')
      | (Returns (Inr resp), evs, w') \<Rightarrow>
          (case campaignResults n http NewCampaignResultResponse resp r campaignID w' of
             (out, tr, w'') \<Rightarrow> (Returns out, evs @ tr, w'')))"

definition CampaignStats_Iterate ::
  "nat \<Rightarrow> ('w, 'auth) transport \<Rightarrow> (bytes \<Rightarrow> error + 'item CampaignStatsResponse)
     \<Rightarrow> 'auth CampaignStats \<Rightarrow> string \<Rightarrow> params \<Rightarrow> 'w
     \<Rightarrow> outcome call \<times> ('item, 'auth) events \<times> 'w"
where
  "CampaignStats_Iterate n http NewCampaignStatsResponse cs campaignID params w =
     (case CampaignStats_Get http NewCampaignStatsResponse cs campaignID params w of
        (Panics err, evs, w') \<Rightarrow> (Panics err, evs, w')
      | (Returns (Inl err), evs, w') \<Rightarrow> (Panics err, evs, w')
      | (Returns (Inr resp), evs, w') \<Rightarrow>
          (case campaignStats n http NewCampaignStatsResponse resp cs campaignID w' of
             (out, tr, w'') \<Rightarrow> (Returns out, evs @ tr, w'')))"

definition AppFeedbackItems_Iterate ::
  "nat \<Rightarrow> ('w, 'auth) transport \<Rightarrow> (bytes \<Rightarrow> error + 'item AppFeedbackResponse)
     \<Rightarrow> 'auth AppFeedbackItems \<Rightarrow> string \<Rightarrow> params \<Rightarrow> 'w
     \<Rightarrow> outcome call \<times> ('item, 'auth) events \<times> 'w"
where
  "AppFeedbackItems_Iterate n http NewAppFeedbackResponse af appID params w =
     (case AppFeedbackItems_Get http NewAppFeedbackResponse af appID params w of
        (Panics err, evs, w') \<Rightarrow> (Panics err, evs, w')
      | (Returns (Inl err), evs, w') \<Rightarrow> (Panics err, evs, w')
      | (Returns (Inr resp), evs, w') \<Rightarrow>
          (case appItems n http NewAppFeedbackResponse resp af appID w' of
             (out, tr, w'') \<Rightarrow> (Returns out, evs @ tr, w'')))"

section \<open>Observing a run\<close>

text \<open>
  What the consumer sees of a run are its channel events; \<open>received\<close> lists the items
  handed to it and \<open>fetches\<close> the requests issued, both in order.
\<close>

fun on_channel :: "('item, 'req) event \<Rightarrow> bool" where
  "on_channel (Send x) = True"
| "on_channel Close = True"
| "on_channel e = False"

fun received :: "('item, 'req) event list \<Rightarrow> 'item list" where
  "received [] = []"
| "received (Send x # tr) = x # received tr"
| "received (e # tr) = received tr"

fun fetches :: "('item, 'req) event list \<Rightarrow> 'req list" where
  "fetches [] = []"
| "fetches (Fetch r # tr) = r # fetches tr"
| "fetches (e # tr) = fetches tr"

text \<open>The pages the transport delivered: the answers that decode, in order.\<close>

fun pages_got ::
  "(bytes \<Rightarrow> error + 'item Response) \<Rightarrow> ('item, 'req) event list \<Rightarrow> 'item Response list"
where
  "pages_got dec [] = []"
| "pages_got dec (Reply (Inr data) # tr) =
     (case dec data of Inr p \<Rightarrow> p # pages_got dec tr | Inl err \<Rightarrow> pages_got dec tr)"
| "pages_got dec (e # tr) = pages_got dec tr"

text \<open>
  Every request of a run, with the events that came before it: \<open>fetch_points [] tr\<close>
  has one pair \<open>(pre, r)\<close> for each decomposition \<open>tr = pre @ Fetch r # post\<close>.
\<close>

fun fetch_points ::
  "('item, 'req) event list \<Rightarrow> ('item, 'req) event list
     \<Rightarrow> (('item, 'req) event list \<times> 'req) list"
where
  "fetch_points pre [] = []"
| "fetch_points pre (Fetch r # tr) = (pre, r) # fetch_points (pre @ [Fetch r]) tr"
| "fetch_points pre (e # tr) = fetch_points (pre @ [e]) tr"

text \<open>
  A monitor for bounded fetch-ahead. Its state is whether a fetch is outstanding and
  which items of the page fetched last are not handed to the consumer yet. A request
  is allowed only when no fetch is outstanding and no item is pending; an answer only
  to an outstanding fetch; the items only in the order of their page. \<open>None\<close> is a
  violation.
\<close>

definition page_items :: "(bytes \<Rightarrow> error + 'item Response) \<Rightarrow> error + bytes \<Rightarrow> 'item list" where
  "page_items dec r =
     (case r of
        Inl err \<Rightarrow> []
      | Inr data \<Rightarrow> (case dec data of Inl err \<Rightarrow> [] | Inr p \<Rightarrow> Items p))"

fun fetch_monitor ::
  "(bytes \<Rightarrow> error + 'item Response) \<Rightarrow> bool \<times> 'item list \<Rightarrow> ('item, 'req) event list
     \<Rightarrow> (bool \<times> 'item list) option"
where
  "fetch_monitor dec st [] = Some st"
| "fetch_monitor dec (outstanding, pending) (Fetch r # tr) =
     (if \<not> outstanding \<and> pending = [] then fetch_monitor dec (True, []) tr else None)"
| "fetch_monitor dec (outstanding, pending) (Reply r # tr) =
     (if outstanding then fetch_monitor dec (False, page_items dec r) tr else None)"
| "fetch_monitor dec (outstanding, pending) (Send x # tr) =
     (case pending of
        [] \<Rightarrow> None
      | y # ys \<Rightarrow>
          if \<not> outstanding \<and> x = y then fetch_monitor dec (outstanding, ys) tr else None)"
| "fetch_monitor dec (outstanding, pending) (Close # tr) =
     (if \<not> outstanding \<and> pending = [] then fetch_monitor dec (outstanding, pending) tr
      else None)"

text \<open>
  The abstract run of a worker: its outcome, its events with every request reduced to
  its query parameters, and the final state of the service.
\<close>

definition abstract_run ::
  "outcome \<times> ('item, 'auth) events \<times> 'w \<Rightarrow> outcome \<times> ('item, params) event list \<times> 'w"
where
  "abstract_run x =
     (outcome_of x, map (map_event (\<lambda>i. i) req_params) (events_of x), world_of x)"

subsection \<open>Services to run against\<close>

text \<open>
  A service that looks at the query parameters of a request only, so that it serves
  the same pages under every URI.
\<close>

definition by_params :: "('w \<Rightarrow> params \<Rightarrow> (error + bytes) \<times> 'w) \<Rightarrow> ('w, 'auth) transport" where
  "by_params srv w request = srv w (req_params request)"

text \<open>
  A scripted service: its state is the list of the answers it still has to give, one
  per request, whatever the request. Out of answers, the transport fails.
\<close>

fun script_http :: "((error + bytes) list, 'auth) transport" where
  "script_http [] request = (Inl ''EOF'', [])"
| "script_http (r # rs) request = (r, rs)"

text \<open>
  A decoder to run examples with: the first byte is the continuation flag, the second
  the watermark, the rest are the items.
\<close>

definition demo_decode :: "bytes \<Rightarrow> error + (8 word) Response" where
  "demo_decode data =
     (case data of
        flag # stamp # body \<Rightarrow>
          Inr \<lparr>Items = body, HasMore = (flag \<noteq> 0), LastTimestamp = ucast stamp\<rparr>
      | _ \<Rightarrow> Inl ''unexpected end of JSON input'')"

section \<open>Facts about the observations\<close>

lemma fetches_append: "fetches (a @ b) = fetches a @ fetches b"
  by (induction a rule: fetches.induct) simp_all

lemma received_append: "received (a @ b) = received a @ received b"
  by (induction a rule: received.induct) simp_all

lemma pages_got_append: "pages_got dec (a @ b) = pages_got dec a @ pages_got dec b"
  by (induction dec a rule: pages_got.induct) (simp_all split: sum.splits)

lemma fetch_points_append:
  "fetch_points pre (a @ b) = fetch_points pre a @ fetch_points (pre @ a) b"
  by (induction pre a rule: fetch_points.induct) simp_all

lemma fetch_monitor_append:
  "fetch_monitor dec st (a @ b) =
     (case fetch_monitor dec st a of None \<Rightarrow> None | Some st' \<Rightarrow> fetch_monitor dec st' b)"
  by (induction dec st a rule: fetch_monitor.induct) (simp_all split: list.splits)

lemma filter_on_channel_Send: "filter on_channel (map Send xs) = map Send xs"
  by (induction xs) simp_all

lemma received_Send: "received (map Send xs) = xs"
  by (induction xs) simp_all

lemma fetches_Send: "fetches (map Send xs) = []"
  by (induction xs) simp_all

lemma pages_got_Send: "pages_got dec (map Send xs) = []"
  by (induction xs) simp_all

lemma fetch_points_Send: "fetch_points pre (map Send xs) = []"
  by (induction xs arbitrary: pre) simp_all

lemma fetch_monitor_Send:
  "fetch_monitor dec (False, xs @ ys) (map Send xs) = Some (False, ys)"
  by (induction xs) simp_all

lemma list_all_weaken:
  assumes "list_all P xs" and "\<And>x. P x \<Longrightarrow> Q x"
  shows "list_all Q xs"
  using assms by (simp add: list_all_iff)

section \<open>The requests of the Get methods\<close>

lemma Sprintf_feedbackURI:
  "Sprintf feedbackURI [base, ident] = base @ ''/'' @ ident @ ''/feedback''"
  by (simp add: feedbackURI_def)

lemma Sprintf_campaignResultsURI:
  "Sprintf campaignResultsURI [ident] = ''/live/websites/campaign/'' @ ident @ ''/results''"
  by (simp add: campaignResultsURI_def campaignURI_def websitesURI_def)

lemma Sprintf_campaignStatsURI:
  "Sprintf campaignStatsURI [ident] = ''/live/websites/campaign/'' @ ident @ ''/stats''"
  by (simp add: campaignStatsURI_def campaignURI_def websitesURI_def)

lemma FormatInt_100: "FormatInt 100 10 = ''100''"
  by (simp add: FormatInt_def formatBits.simps digit_def)

lemma FeedbackItems_Get_eq:
  "FeedbackItems_Get http dec f buttonID params w =
     (let request = \<lparr>req_method = ''GET'', req_auth = auth f,
                     req_uri = Sprintf feedbackURI [buttonURI, buttonID],
                     req_params = params\<rparr>;
          r = fst (http w request)
      in ((case r of Inl err \<Rightarrow> Panics err | Inr data \<Rightarrow> Returns (dec data)),
          [Fetch request, Reply r], snd (http w request)))"
  by (simp add: FeedbackItems_Get_def Request_Get_def Let_def split: prod.splits sum.splits)

lemma AppFeedbackItems_Get_eq:
  "AppFeedbackItems_Get http dec af appID params w =
     (let request = \<lparr>req_method = ''GET'', req_auth = auth af,
                     req_uri = Sprintf feedbackURI [appsURI, appID],
                     req_params = params\<rparr>;
          r = fst (http w request)
      in ((case r of Inl err \<Rightarrow> Panics err | Inr data \<Rightarrow> Returns (dec data)),
          [Fetch request, Reply r], snd (http w request)))"
  by (simp add: AppFeedbackItems_Get_def Request_Get_def Let_def split: prod.splits sum.splits)

lemma CampaignResults_Get_eq:
  "CampaignResults_Get http dec r campaignID params w =
     (let request = \<lparr>req_method = ''GET'', req_auth = auth r,
                     req_uri = Sprintf campaignResultsURI [campaignID],
                     req_params = params\<rparr>;
          a = fst (http w request)
      in ((case a of Inl err \<Rightarrow> Panics err | Inr data \<Rightarrow> Returns (dec data)),
          [Fetch request, Reply a], snd (http w request)))"
  by (simp add: CampaignResults_Get_def Request_Get_def Let_def split: prod.splits sum.splits)

lemma CampaignStats_Get_eq:
  "CampaignStats_Get http dec cs campaignID params w =
     (let request = \<lparr>req_method = ''GET'', req_auth = auth cs,
                     req_uri = Sprintf campaignStatsURI [campaignID],
                     req_params = params\<rparr>;
          a = fst (http w request)
      in ((case a of Inl err \<Rightarrow> Panics err | Inr data \<Rightarrow> Returns (dec data)),
          [Fetch request, Reply a], snd (http w request)))"
  by (simp add: CampaignStats_Get_def Request_Get_def Let_def split: prod.splits sum.splits)

lemma Buttons_Get_eq:
  "Buttons_Get http dec b params w =
     (let request = \<lparr>req_method = ''GET'', req_auth = auth b, req_uri = buttonURI,
                     req_params = params\<rparr>;
          t = fst (http w request)
      in ((case t of Inl err \<Rightarrow> Panics err | Inr data \<Rightarrow> Returns (dec data)),
          [Fetch request, Reply t], snd (http w request)))"
  by (simp add: Buttons_Get_def Request_Get_def Let_def split: prod.splits sum.splits)

lemma Campaigns_Get_eq:
  "Campaigns_Get http dec c params w =
     (let request = \<lparr>req_method = ''GET'', req_auth = auth c, req_uri = campaignURI,
                     req_params = params\<rparr>;
          t = fst (http w request)
      in ((case t of Inl err \<Rightarrow> Panics err | Inr data \<Rightarrow> Returns (dec data)),
          [Fetch request, Reply t], snd (http w request)))"
  by (simp add: Campaigns_Get_def Request_Get_def Let_def split: prod.splits sum.splits)

lemma Apps_Get_eq:
  "Apps_Get http dec a params w =
     (let request = \<lparr>req_method = ''GET'', req_auth = auth a, req_uri = appsURI,
                     req_params = params\<rparr>;
          t = fst (http w request)
      in ((case t of Inl err \<Rightarrow> Panics err | Inr data \<Rightarrow> Returns (dec data)),
          [Fetch request, Reply t], snd (http w request)))"
  by (simp add: Apps_Get_def Request_Get_def Let_def split: prod.splits sum.splits)

lemma EmailButtons_Get_eq:
  "EmailButtons_Get http dec eb params w =
     (let request = \<lparr>req_method = ''GET'', req_auth = auth eb, req_uri = emailButtonURI,
                     req_params = params\<rparr>;
          t = fst (http w request)
      in ((case t of Inl err \<Rightarrow> Panics err | Inr data \<Rightarrow> Returns (dec data)),
          [Fetch request, Reply t], snd (http w request)))"
  by (simp add: EmailButtons_Get_def Request_Get_def Let_def split: prod.splits sum.splits)

text \<open>
  A transport error makes a \<open>Get\<close> panic, and an error that a \<open>Get\<close> returns is what
  its decoder made of the data the transport delivered.
\<close>

lemma Buttons_Get_panics:
  "(fst (http w \<lparr>req_method = ''GET'', req_auth = auth b,
           req_uri = buttonURI, req_params = params\<rparr>) = Inl err
       \<longrightarrow> outcome_of (Buttons_Get http dec b params w) = Panics err)
   \<and> (outcome_of (Buttons_Get http dec b params w) = Returns (Inl err)
       \<longrightarrow> (\<exists>data. fst (http w \<lparr>req_method = ''GET'', req_auth = auth b,
           req_uri = buttonURI, req_params = params\<rparr>) = Inr data
             \<and> dec data = Inl err))"
  by (auto simp: Buttons_Get_eq Let_def split: sum.splits)

lemma FeedbackItems_Get_panics:
  "(fst (http w \<lparr>req_method = ''GET'', req_auth = auth f,
           req_uri = Sprintf feedbackURI [buttonURI, buttonID], req_params = params\<rparr>) = Inl err
       \<longrightarrow> outcome_of (FeedbackItems_Get http dec f buttonID params w) = Panics err)
   \<and> (outcome_of (FeedbackItems_Get http dec f buttonID params w) = Returns (Inl err)
       \<longrightarrow> (\<exists>data. fst (http w \<lparr>req_method = ''GET'', req_auth = auth f,
           req_uri = Sprintf feedbackURI [buttonURI, buttonID], req_params = params\<rparr>) = Inr data
             \<and> dec data = Inl err))"
  by (auto simp: FeedbackItems_Get_eq Let_def split: sum.splits)

lemma Campaigns_Get_panics:
  "(fst (http w \<lparr>req_method = ''GET'', req_auth = auth c,
           req_uri = campaignURI, req_params = params\<rparr>) = Inl err
       \<longrightarrow> outcome_of (Campaigns_Get http dec c params w) = Panics err)
   \<and> (outcome_of (Campaigns_Get http dec c params w) = Returns (Inl err)
       \<longrightarrow> (\<exists>data. fst (http w \<lparr>req_method = ''GET'', req_auth = auth c,
           req_uri = campaignURI, req_params = params\<rparr>) = Inr data
             \<and> dec data = Inl err))"
  by (auto simp: Campaigns_Get_eq Let_def split: sum.splits)

lemma CampaignResults_Get_panics:
  "(fst (http w \<lparr>req_method = ''GET'', req_auth = auth r,
           req_uri = Sprintf campaignResultsURI [campaignID], req_params = params\<rparr>) = Inl err
       \<longrightarrow> outcome_of (CampaignResults_Get http dec r campaignID params w) = Panics err)
   \<and> (outcome_of (CampaignResults_Get http dec r campaignID params w) = Returns (Inl err)
       \<longrightarrow> (\<exists>data. fst (http w \<lparr>req_method = ''GET'', req_auth = auth r,
           req_uri = Sprintf campaignResultsURI [campaignID], req_params = params\<rparr>) = Inr data
             \<and> dec data = Inl err))"
  by (auto simp: CampaignResults_Get_eq Let_def split: sum.splits)

lemma CampaignStats_Get_panics:
  "(fst (http w \<lparr>req_method = ''GET'', req_auth = auth cs,
           req_uri = Sprintf campaignStatsURI [campaignID], req_params = params\<rparr>) = Inl err
       \<longrightarrow> outcome_of (CampaignStats_Get http dec cs campaignID params w) = Panics err)
   \<and> (outcome_of (CampaignStats_Get http dec cs campaignID params w) = Returns (Inl err)
       \<longrightarrow> (\<exists>data. fst (http w \<lparr>req_method = ''GET'', req_auth = auth cs,
           req_uri = Sprintf campaignStatsURI [campaignID], req_params = params\<rparr>) = Inr data
             \<and> dec data = Inl err))"
  by (auto simp: CampaignStats_Get_eq Let_def split: sum.splits)

lemma Apps_Get_panics:
  "(fst (http w \<lparr>req_method = ''GET'', req_auth = auth a,
           req_uri = appsURI, req_params = params\<rparr>) = Inl err
       \<longrightarrow> outcome_of (Apps_Get http dec a params w) = Panics err)
   \<and> (outcome_of (Apps_Get http dec a params w) = Returns (Inl err)
       \<longrightarrow> (\<exists>data. fst (http w \<lparr>req_method = ''GET'', req_auth = auth a,
           req_uri = appsURI, req_params = params\<rparr>) = Inr data
             \<and> dec data = Inl err))"
  by (auto simp: Apps_Get_eq Let_def split: sum.splits)

lemma AppFeedbackItems_Get_panics:
  "(fst (http w \<lparr>req_method = ''GET'', req_auth = auth af,
           req_uri = Sprintf feedbackURI [appsURI, appID], req_params = params\<rparr>) = Inl err
       \<longrightarrow> outcome_of (AppFeedbackItems_Get http dec af appID params w) = Panics err)
   \<and> (outcome_of (AppFeedbackItems_Get http dec af appID params w) = Returns (Inl err)
       \<longrightarrow> (\<exists>data. fst (http w \<lparr>req_method = ''GET'', req_auth = auth af,
           req_uri = Sprintf feedbackURI [appsURI, appID], req_params = params\<rparr>) = Inr data
             \<and> dec data = Inl err))"
  by (auto simp: AppFeedbackItems_Get_eq Let_def split: sum.splits)

lemma EmailButtons_Get_panics:
  "(fst (http w \<lparr>req_method = ''GET'', req_auth = auth eb,
           req_uri = emailButtonURI, req_params = params\<rparr>) = Inl err
       \<longrightarrow> outcome_of (EmailButtons_Get http dec eb params w) = Panics err)
   \<and> (outcome_of (EmailButtons_Get http dec eb params w) = Returns (Inl err)
       \<longrightarrow> (\<exists>data. fst (http w \<lparr>req_method = ''GET'', req_auth = auth eb,
           req_uri = emailButtonURI, req_params = params\<rparr>) = Inr data
             \<and> dec data = Inl err))"
  by (auto simp: EmailButtons_Get_eq Let_def split: sum.splits)

section \<open>One step of a worker\<close>

text \<open>
  The second equation of each worker, with the result of \<open>Get\<close> taken apart by
  projections. These replace the defining equations in the simplifier.
\<close>

lemma items_Suc:
  "items (Suc n) http dec resp f buttonID w =
     (if \<not> HasMore resp then (Closed, map Send (Items resp) @ [Close], w)
      else
        let g = FeedbackItems_Get http dec f buttonID
                  [''since'' \<mapsto> FormatInt (LastTimestamp resp) 10] w
        in case outcome_of g of
             Panics err \<Rightarrow> (Panicked err, map Send (Items resp) @ events_of g, world_of g)
           | Returns (Inl err) \<Rightarrow> (Panicked err, map Send (Items resp) @ events_of g, world_of g)
           | Returns (Inr resp') \<Rightarrow>
               (outcome_of (items n http dec resp' f buttonID (world_of g)),
                map Send (Items resp) @ events_of g
                  @ events_of (items n http dec resp' f buttonID (world_of g)),
                world_of (items n http dec resp' f buttonID (world_of g))))"
  by (simp add: Let_def case_prod_beta split: call.splits sum.splits prod.splits)

lemma campaignResults_Suc:
  "campaignResults (Suc n) http dec resp r campaignID w =
     (if \<not> HasMore resp then (Closed, map Send (Items resp) @ [Close], w)
      else
        let g = CampaignResults_Get http dec r campaignID
                  [''since'' \<mapsto> FormatInt (LastTimestamp resp) 10] w
        in case outcome_of g of
             Panics err \<Rightarrow> (Panicked err, map Send (Items resp) @ events_of g, world_of g)
           | Returns (Inl err) \<Rightarrow> (Panicked err, map Send (Items resp) @ events_of g, world_of g)
           | Returns (Inr resp') \<Rightarrow>
               (outcome_of (campaignResults n http dec resp' r campaignID (world_of g)),
                map Send (Items resp) @ events_of g
                  @ events_of (campaignResults n http dec resp' r campaignID (world_of g)),
                world_of (campaignResults n http dec resp' r campaignID (world_of g))))"
  by (simp add: Let_def case_prod_beta split: call.splits sum.splits prod.splits)

lemma campaignStats_Suc:
  "campaignStats (Suc n) http dec resp cs campaignID w =
     (if \<not> HasMore resp then (Closed, map Send (Items resp) @ [Close], w)
      else
        let g = CampaignStats_Get http dec cs campaignID
                  [''since'' \<mapsto> FormatInt (LastTimestamp resp) 10] w
        in case outcome_of g of
             Panics err \<Rightarrow> (Panicked err, map Send (Items resp) @ events_of g, world_of g)
           | Returns (Inl err) \<Rightarrow> (Panicked err, map Send (Items resp) @ events_of g, world_of g)
           | Returns (Inr resp') \<Rightarrow>
               (outcome_of (campaignStats n http dec resp' cs campaignID (world_of g)),
                map Send (Items resp) @ events_of g
                  @ events_of (campaignStats n http dec resp' cs campaignID (world_of g)),
                world_of (campaignStats n http dec resp' cs campaignID (world_of g))))"
  by (simp add: Let_def case_prod_beta split: call.splits sum.splits prod.splits)

lemma appItems_Suc:
  "appItems (Suc n) http dec resp af appID w =
     (if \<not> HasMore resp then (Closed, map Send (Items resp) @ [Close], w)
      else
        let g = AppFeedbackItems_Get http dec af appID
                  [''since'' \<mapsto> FormatInt (LastTimestamp resp) 10] w
        in case outcome_of g of
             Panics err \<Rightarrow> (Panicked err, map Send (Items resp) @ events_of g, world_of g)
           | Returns (Inl err) \<Rightarrow> (Panicked err, map Send (Items resp) @ events_of g, world_of g)
           | Returns (Inr resp') \<Rightarrow>
               (outcome_of (appItems n http dec resp' af appID (world_of g)),
                map Send (Items resp) @ events_of g
                  @ events_of (appItems n http dec resp' af appID (world_of g)),
                world_of (appItems n http dec resp' af appID (world_of g))))"
  by (simp add: Let_def case_prod_beta split: call.splits sum.splits prod.splits)

declare items.simps(2) [simp del] campaignResults.simps(2) [simp del]
  campaignStats.simps(2) [simp del] appItems.simps(2) [simp del]

section \<open>Invariants of a run\<close>

text \<open>
  A worker that starts with no fetch outstanding and the items of its page pending
  never trips the monitor.
\<close>

lemma items_monitor:
  "fetch_monitor dec (False, Items resp) (events_of (items n http dec resp f buttonID w)) \<noteq> None"
proof (induction n arbitrary: resp w)
  case 0
  show ?case by simp
next
  case (Suc n)
  have sent: "fetch_monitor dec (False, Items resp) (map Send (Items resp)) = Some (False, [])"
    using fetch_monitor_Send [of dec "Items resp" "[]"] by simp
  show ?case
    using Suc.IH
    by (auto simp: items_Suc FeedbackItems_Get_eq Let_def fetch_monitor_append sent page_items_def
        split: call.splits sum.splits)
qed

text \<open>
  A worker that starts after the events \<open>h\<close>, when its page is the page delivered last
  and all items of earlier pages are handed over, issues each of its requests when all
  items delivered so far are handed over, with \<open>since\<close> from the page delivered last.
\<close>

lemma items_fetch_points:
  assumes "pages_got dec h \<noteq> []" and "last (pages_got dec h) = resp"
    and "received h @ Items resp = concat (map Items (pages_got dec h))"
  shows "list_all
     (\<lambda>(pre, r). pages_got dec pre \<noteq> []
        \<and> received pre = concat (map Items (pages_got dec pre))
        \<and> r = \<lparr>req_method = ''GET'', req_auth = auth f,
                req_uri = Sprintf feedbackURI [buttonURI, buttonID],
                req_params = [''since'' \<mapsto>
                  FormatInt (LastTimestamp (last (pages_got dec pre))) 10]\<rparr>)
     (fetch_points h (events_of (items n http dec resp f buttonID w)))"
  using assms
proof (induction n arbitrary: h resp w)
  case 0
  show ?case by simp
next
  case (Suc n)
  let ?sent = "map Send (Items resp)"
  let ?req = "\<lparr>req_method = ''GET'', req_auth = auth f,
                req_uri = Sprintf feedbackURI [buttonURI, buttonID],
                req_params = [''since'' \<mapsto> FormatInt (LastTimestamp resp) 10]\<rparr>"
  show ?case
  proof (cases "HasMore resp")
    case False
    then show ?thesis
      by (simp add: items_Suc fetch_points_append fetch_points_Send)
  next
    case True
    obtain a w' where a: "http w ?req = (a, w')" by (cases "http w ?req")
    have here: "pages_got dec (h @ ?sent) \<noteq> []"
      "received (h @ ?sent) = concat (map Items (pages_got dec (h @ ?sent)))"
      "last (pages_got dec (h @ ?sent)) = resp"
      using Suc.prems by (simp_all add: pages_got_append pages_got_Send received_append received_Send)
    show ?thesis
    proof (cases "\<exists>d resp'. a = Inr d \<and> dec d = Inr resp'")
      case False
      then show ?thesis
        using True a here
        by (auto simp: items_Suc FeedbackItems_Get_eq Let_def fetch_points_append
            fetch_points_Send split: call.splits sum.splits)
    next
      case True
      then obtain d resp' where d: "a = Inr d" "dec d = Inr resp'" by blast
      let ?h = "h @ ?sent @ [Fetch ?req, Reply (Inr d)]"
      have "pages_got dec ?h \<noteq> []" "last (pages_got dec ?h) = resp'"
        "received ?h @ Items resp' = concat (map Items (pages_got dec ?h))"
        using Suc.prems d
        by (simp_all add: pages_got_append pages_got_Send received_append received_Send)
      from Suc.IH [OF this, of w'] show ?thesis
        using \<open>HasMore resp\<close> a d here
        by (simp add: items_Suc FeedbackItems_Get_eq Let_def fetch_points_append
            fetch_points_Send fun_eq_iff)
    qed
  qed
qed

lemma Iterate_fetch_points:
  "list_all
     (\<lambda>(pre, r). received pre = concat (map Items (pages_got dec pre))
        \<and> r = \<lparr>req_method = ''GET'', req_auth = auth f,
                req_uri = Sprintf feedbackURI [buttonURI, buttonID],
                req_params = (if pages_got dec pre = [] then params
                  else [''since'' \<mapsto>
                    FormatInt (LastTimestamp (last (pages_got dec pre))) 10])\<rparr>)
     (fetch_points [] (events_of (FeedbackItems_Iterate n http dec f buttonID params w)))"
proof -
  let ?req = "\<lparr>req_method = ''GET'', req_auth = auth f,
                req_uri = Sprintf feedbackURI [buttonURI, buttonID], req_params = params\<rparr>"
  obtain a w' where a: "http w ?req = (a, w')" by (cases "http w ?req")
  show ?thesis
  proof (cases "\<exists>d resp. a = Inr d \<and> dec d = Inr resp")
    case False
    then show ?thesis
      using a
      by (auto simp: FeedbackItems_Iterate_def FeedbackItems_Get_eq Let_def
          split: call.splits sum.splits)
  next
    case True
    then obtain d resp where d: "a = Inr d" "dec d = Inr resp" by blast
    let ?h = "[Fetch ?req, Reply (Inr d)]"
    have "pages_got dec ?h \<noteq> []" "last (pages_got dec ?h) = resp"
      "received ?h @ Items resp = concat (map Items (pages_got dec ?h))"
      using d by simp_all
    from items_fetch_points [OF this, of f buttonID n http w']
    have "list_all
     (\<lambda>(pre, r). received pre = concat (map Items (pages_got dec pre))
        \<and> r = \<lparr>req_method = ''GET'', req_auth = auth f,
                req_uri = Sprintf feedbackURI [buttonURI, buttonID],
                req_params = (if pages_got dec pre = [] then params
                  else [''since'' \<mapsto>
                    FormatInt (LastTimestamp (last (pages_got dec pre))) 10])\<rparr>)
     (fetch_points ?h (events_of (items n http dec resp f buttonID w')))"
      by (auto simp: list_all_iff)
    then show ?thesis
      using a d
      by (simp add: FeedbackItems_Iterate_def FeedbackItems_Get_eq Let_def case_prod_beta)
  qed
qed

text \<open>The same for the worker and the \<open>Iterate\<close> of campaign results.\<close>

lemma campaignResults_fetch_points:
  assumes "pages_got dec h \<noteq> []" and "last (pages_got dec h) = resp"
    and "received h @ Items resp = concat (map Items (pages_got dec h))"
  shows "list_all
     (\<lambda>(pre, q). pages_got dec pre \<noteq> []
        \<and> received pre = concat (map Items (pages_got dec pre))
        \<and> q = \<lparr>req_method = ''GET'', req_auth = auth r,
                req_uri = Sprintf campaignResultsURI [campaignID],
                req_params = [''since'' \<mapsto>
                  FormatInt (LastTimestamp (last (pages_got dec pre))) 10]\<rparr>)
     (fetch_points h (events_of (campaignResults n http dec resp r campaignID w)))"
  using assms
proof (induction n arbitrary: h resp w)
  case 0
  show ?case by simp
next
  case (Suc n)
  let ?sent = "map Send (Items resp)"
  let ?req = "\<lparr>req_method = ''GET'', req_auth = auth r,
                req_uri = Sprintf campaignResultsURI [campaignID],
                req_params = [''since'' \<mapsto> FormatInt (LastTimestamp resp) 10]\<rparr>"
  show ?case
  proof (cases "HasMore resp")
    case False
    then show ?thesis
      by (simp add: campaignResults_Suc fetch_points_append fetch_points_Send)
  next
    case True
    obtain a w' where a: "http w ?req = (a, w')" by (cases "http w ?req")
    have here: "pages_got dec (h @ ?sent) \<noteq> []"
      "received (h @ ?sent) = concat (map Items (pages_got dec (h @ ?sent)))"
      "last (pages_got dec (h @ ?sent)) = resp"
      using Suc.prems by (simp_all add: pages_got_append pages_got_Send received_append received_Send)
    show ?thesis
    proof (cases "\<exists>d resp'. a = Inr d \<and> dec d = Inr resp'")
      case False
      then show ?thesis
        using True a here
        by (auto simp: campaignResults_Suc CampaignResults_Get_eq Let_def fetch_points_append
            fetch_points_Send split: call.splits sum.splits)
    next
      case True
      then obtain d resp' where d: "a = Inr d" "dec d = Inr resp'" by blast
      let ?h = "h @ ?sent @ [Fetch ?req, Reply (Inr d)]"
      have "pages_got dec ?h \<noteq> []" "last (pages_got dec ?h) = resp'"
        "received ?h @ Items resp' = concat (map Items (pages_got dec ?h))"
        using Suc.prems d
        by (simp_all add: pages_got_append pages_got_Send received_append received_Send)
      from Suc.IH [OF this, of w'] show ?thesis
        using \<open>HasMore resp\<close> a d here
        by (simp add: campaignResults_Suc CampaignResults_Get_eq Let_def fetch_points_append
            fetch_points_Send fun_eq_iff)
    qed
  qed
qed

lemma CampaignResults_Iterate_fetch_points:
  "list_all
     (\<lambda>(pre, q). received pre = concat (map Items (pages_got dec pre))
        \<and> q = \<lparr>req_method = ''GET'', req_auth = auth r,
                req_uri = Sprintf campaignResultsURI [campaignID],
                req_params = (if pages_got dec pre = [] then params
                  else [''since'' \<mapsto>
                    FormatInt (LastTimestamp (last (pages_got dec pre))) 10])\<rparr>)
     (fetch_points [] (events_of (CampaignResults_Iterate n http dec r campaignID params w)))"
proof -
  let ?req = "\<lparr>req_method = ''GET'', req_auth = auth r,
                req_uri = Sprintf campaignResultsURI [campaignID], req_params = params\<rparr>"
  obtain a w' where a: "http w ?req = (a, w')" by (cases "http w ?req")
  show ?thesis
  proof (cases "\<exists>d resp. a = Inr d \<and> dec d = Inr resp")
    case False
    then show ?thesis
      using a
      by (auto simp: CampaignResults_Iterate_def CampaignResults_Get_eq Let_def
          split: call.splits sum.splits)
  next
    case True
    then obtain d resp where d: "a = Inr d" "dec d = Inr resp" by blast
    let ?h = "[Fetch ?req, Reply (Inr d)]"
    have "pages_got dec ?h \<noteq> []" "last (pages_got dec ?h) = resp"
      "received ?h @ Items resp = concat (map Items (pages_got dec ?h))"
      using d by simp_all
    from campaignResults_fetch_points [OF this, of r campaignID n http w']
    have "list_all
     (\<lambda>(pre, q). received pre = concat (map Items (pages_got dec pre))
        \<and> q = \<lparr>req_method = ''GET'', req_auth = auth r,
                req_uri = Sprintf campaignResultsURI [campaignID],
                req_params = (if pages_got dec pre = [] then params
                  else [''since'' \<mapsto>
                    FormatInt (LastTimestamp (last (pages_got dec pre))) 10])\<rparr>)
     (fetch_points ?h (events_of (campaignResults n http dec resp r campaignID w')))"
      by (auto simp: list_all_iff)
    then show ?thesis
      using a d
      by (simp add: CampaignResults_Iterate_def CampaignResults_Get_eq Let_def case_prod_beta)
  qed
qed

section \<open>Runs against a scripted service\<close>

lemma items_script_closed:
  assumes "\<forall>q\<in>set (butlast (p # ps)). HasMore q" and "\<not> HasMore (last (p # ps))"
    and "map dec datas = map Inr ps" and "length ps < n"
  shows "outcome_of (items n script_http dec p f buttonID (map Inr datas @ rest)) = Closed
    \<and> filter on_channel (events_of (items n script_http dec p f buttonID (map Inr datas @ rest)))
        = map Send (concat (map Items (p # ps))) @ [Close]
    \<and> world_of (items n script_http dec p f buttonID (map Inr datas @ rest)) = rest"
  using assms
proof (induction ps arbitrary: p n datas)
  case Nil
  from Nil(4) obtain m where "n = Suc m" by (cases n) auto
  with Nil show ?case by (simp add: items_Suc filter_on_channel_Send)
next
  case (Cons q qs)
  from Cons.prems(4) obtain m where n: "n = Suc m" by (cases n) auto
  from Cons.prems(3) obtain d ds
    where datas: "datas = d # ds" "dec d = Inr q" "map dec ds = map Inr qs"
    by (cases datas) auto
  from Cons.prems n have more: "HasMore p" "\<forall>x\<in>set (butlast (q # qs)). HasMore x"
    "\<not> HasMore (last (q # qs))" "length qs < m"
    by auto
  from Cons.IH [OF more(2) more(3) datas(3) more(4)] show ?case
    using more(1) n datas
    by (simp add: items_Suc FeedbackItems_Get_eq Let_def filter_on_channel_Send)
qed

lemma items_script_fail:
  assumes "HasMore p"
    and "bad = Inl err \<or> (\<exists>d. bad = Inr d \<and> dec d = Inl err)"
  shows "items (Suc m) script_http dec p f buttonID (bad # rest)
        = (Panicked err, map Send (Items p) @ [Fetch \<lparr>req_method = ''GET'', req_auth = auth f,
                req_uri = Sprintf feedbackURI [buttonURI, buttonID],
                req_params = [''since'' \<mapsto> FormatInt (LastTimestamp p) 10]\<rparr>, Reply bad], rest)"
  using assms
  by (auto simp: items_Suc FeedbackItems_Get_eq Let_def)

lemma items_script_panicked:
  assumes "\<forall>q\<in>set (p # ps). HasMore q" and "map dec datas = map Inr ps"
    and "bad = Inl err \<or> (\<exists>d. bad = Inr d \<and> dec d = Inl err)" and "length ps < n"
  shows "outcome_of (items n script_http dec p f buttonID (map Inr datas @ bad # rest))
        = Panicked err
    \<and> filter on_channel
        (events_of (items n script_http dec p f buttonID (map Inr datas @ bad # rest)))
        = map Send (concat (map Items (p # ps)))
    \<and> world_of (items n script_http dec p f buttonID (map Inr datas @ bad # rest)) = rest"
  using assms(1,2,4)
proof (induction ps arbitrary: p n datas)
  case Nil
  from Nil(3) obtain m where n: "n = Suc m" by (cases n) auto
  from Nil have "HasMore p" "datas = []" by simp_all
  with items_script_fail [OF this(1) assms(3), of m f buttonID rest] n show ?case
    by (simp add: filter_on_channel_Send)
next
  case (Cons q qs)
  from Cons.prems(3) obtain m where n: "n = Suc m" by (cases n) auto
  from Cons.prems(2) obtain d ds
    where datas: "datas = d # ds" "dec d = Inr q" "map dec ds = map Inr qs"
    by (cases datas) auto
  from Cons.prems n have more: "HasMore p" "\<forall>x\<in>set (q # qs). HasMore x" "length qs < m"
    by auto
  from Cons.IH [OF more(2) datas(3) more(3)] show ?case
    using more(1) n datas(1,2)
    by (simp add: items_Suc FeedbackItems_Get_eq Let_def filter_on_channel_Send)
qed

lemma campaignResults_items:
  "abstract_run (campaignResults n (by_params srv) dec resp r campaignID w)
     = abstract_run (items n (by_params srv) dec resp f buttonID w)"
proof (induction n arbitrary: resp w)
  case 0
  show ?case by (simp add: abstract_run_def)
next
  case (Suc n)
  then show ?case
    by (simp add: abstract_run_def items_Suc campaignResults_Suc FeedbackItems_Get_eq
        CampaignResults_Get_eq by_params_def Let_def split: sum.splits)
qed

lemma campaignStats_items:
  "abstract_run (campaignStats n (by_params srv) dec resp cs campaignID w)
     = abstract_run (items n (by_params srv) dec resp f buttonID w)"
proof (induction n arbitrary: resp w)
  case 0
  show ?case by (simp add: abstract_run_def)
next
  case (Suc n)
  then show ?case
    by (simp add: abstract_run_def items_Suc campaignStats_Suc FeedbackItems_Get_eq
        CampaignStats_Get_eq by_params_def Let_def split: sum.splits)
qed

lemma appItems_items:
  "abstract_run (appItems n (by_params srv) dec resp af appID w)
     = abstract_run (items n (by_params srv) dec resp f buttonID w)"
proof (induction n arbitrary: resp w)
  case 0
  show ?case by (simp add: abstract_run_def)
next
  case (Suc n)
  then show ?case
    by (simp add: abstract_run_def items_Suc appItems_Suc FeedbackItems_Get_eq
        AppFeedbackItems_Get_eq by_params_def Let_def split: sum.splits)
qed

section \<open>The properties of the specification\<close>

text \<open>
  C1. Let the service answer the requests of \<open>Iterate\<close> with a finite sequence of
  pages, one per request, of which the last and only the last has \<open>HasMore\<close> false.
  Then \<open>Iterate\<close> returns its channel, and the channel carries exactly the items of all
  pages, concatenated in page order, and is then closed once: the channel events are
  the sends of these items followed by one \<open>Close\<close>. No answer after the last page is
  consumed. One worker runs per page, so \<open>n\<close> workers are enough for \<open>n\<close> pages.
\<close>

theorem Iterate_exhaustion:
  assumes "pages \<noteq> []" and "\<forall>p\<in>set (butlast pages). HasMore p"
    and "\<not> HasMore (last pages)" and "map dec datas = map Inr pages"
    and "length pages \<le> n"
  shows "outcome_of (FeedbackItems_Iterate n script_http dec f buttonID params
            (map Inr datas @ rest)) = Returns Closed
    \<and> filter on_channel (events_of (FeedbackItems_Iterate n script_http dec f buttonID params
            (map Inr datas @ rest))) = map Send (concat (map Items pages)) @ [Close]
    \<and> world_of (FeedbackItems_Iterate n script_http dec f buttonID params
            (map Inr datas @ rest)) = rest"
proof -
  from assms(1) obtain p ps where pages: "pages = p # ps" by (cases pages) auto
  with assms(4) obtain d ds
    where datas: "datas = d # ds" "dec d = Inr p" "map dec ds = map Inr ps"
    by (cases datas) auto
  have "\<forall>q\<in>set (butlast (p # ps)). HasMore q" "\<not> HasMore (last (p # ps))" "length ps < n"
    using assms pages by auto
  from items_script_closed [OF this(1) this(2) datas(3) this(3), of f buttonID rest]
  show ?thesis
    using pages datas
    by (simp add: FeedbackItems_Iterate_def FeedbackItems_Get_eq Let_def case_prod_beta)
qed

text \<open>
  C1 on the example of the specification: the pages \<open>[7, 8]\<close> (more to come, watermark
  100) and \<open>[9]\<close> (the last, watermark 150) give the stream 7, 8, 9 and then the close.
\<close>

theorem Iterate_exhaustion_witness:
  "outcome_of (FeedbackItems_Iterate 2 script_http demo_decode \<lparr>auth = ()\<rparr> ''b1'' Map.empty
      [Inr [1, 100, 7, 8], Inr [0, 150, 9]]) = Returns Closed
   \<and> filter on_channel (events_of (FeedbackItems_Iterate 2 script_http demo_decode
      \<lparr>auth = ()\<rparr> ''b1'' Map.empty [Inr [1, 100, 7, 8], Inr [0, 150, 9]]))
     = [Send 7, Send 8, Send 9, Close]"
  using Iterate_exhaustion [of
      "[\<lparr>Items = [7, 8], HasMore = True, LastTimestamp = 100\<rparr>,
        \<lparr>Items = [9], HasMore = False, LastTimestamp = 150\<rparr>]"
      demo_decode "[[1, 100, 7, 8], [0, 150, 9]]" 2 "\<lparr>auth = ()\<rparr>" "''b1''" Map.empty "[]"]
  by (simp add: demo_decode_def)

text \<open>
  C2 (what the code does). At every request of a run of \<open>Iterate\<close>, for feedback items
  and for campaign results, whatever the service answers: when no page has been
  delivered yet (the first fetch) the parameter map is the caller's; afterwards it is
  exactly the one entry \<open>since\<close>, the decimal encoding of the \<open>LastTimestamp\<close> of the
  page delivered last. The workers build this map anew, so no parameter of the original
  request is carried over.
\<close>

theorem Iterate_since_only:
  "list_all
     (\<lambda>(pre, q). req_params q =
        (if pages_got dec pre = [] then params
         else [''since'' \<mapsto> FormatInt (LastTimestamp (last (pages_got dec pre))) 10]))
     (fetch_points [] (events_of (FeedbackItems_Iterate n http dec f buttonID params w)))
   \<and> list_all
     (\<lambda>(pre, q). req_params q =
        (if pages_got dec' pre = [] then params
         else [''since'' \<mapsto> FormatInt (LastTimestamp (last (pages_got dec' pre))) 10]))
     (fetch_points [] (events_of (CampaignResults_Iterate n http dec' r campaignID params w)))"
proof
  show "list_all
     (\<lambda>(pre, q). req_params q =
        (if pages_got dec pre = [] then params
         else [''since'' \<mapsto> FormatInt (LastTimestamp (last (pages_got dec pre))) 10]))
     (fetch_points [] (events_of (FeedbackItems_Iterate n http dec f buttonID params w)))"
    by (rule list_all_weaken [OF Iterate_fetch_points]) auto
  show "list_all
     (\<lambda>(pre, q). req_params q =
        (if pages_got dec' pre = [] then params
         else [''since'' \<mapsto> FormatInt (LastTimestamp (last (pages_got dec' pre))) 10]))
     (fetch_points [] (events_of (CampaignResults_Iterate n http dec' r campaignID params w)))"
    by (rule list_all_weaken [OF CampaignResults_Iterate_fetch_points]) auto
qed

text \<open>
  C2 on an example, for both resources: the first request has the caller's \<open>limit\<close> and
  no \<open>since\<close>, the second has \<open>since = 100\<close>, the watermark of the first page, and no
  \<open>limit\<close>.
\<close>

theorem Iterate_since_only_witness:
  "map (\<lambda>q. (req_params q ''since'', req_params q ''limit''))
     (fetches (events_of (FeedbackItems_Iterate (Suc (Suc 0)) script_http demo_decode
        \<lparr>auth = ()\<rparr> ''b1'' [''limit'' \<mapsto> ''1''] [Inr [1, 100, 7, 8], Inr [0, 150, 9]])))
   = [(None, Some ''1''), (Some ''100'', None)]
   \<and> map (\<lambda>q. (req_params q ''since'', req_params q ''limit''))
     (fetches (events_of (CampaignResults_Iterate (Suc (Suc 0)) script_http demo_decode
        \<lparr>auth = ()\<rparr> ''c7'' [''limit'' \<mapsto> ''1''] [Inr [1, 100, 7, 8], Inr [0, 150, 9]])))
   = [(None, Some ''1''), (Some ''100'', None)]"
  using Iterate_since_only [of demo_decode "[''limit'' \<mapsto> ''1'']" "Suc (Suc 0)"
      script_http "\<lparr>auth = ()\<rparr>" "''b1''" "[Inr [1, 100, 7, 8], Inr [0, 150, 9]]"
      demo_decode "\<lparr>auth = ()\<rparr>" "''c7''"]
  by (simp add: FeedbackItems_Iterate_def FeedbackItems_Get_eq CampaignResults_Iterate_def
      CampaignResults_Get_eq Let_def items_Suc campaignResults_Suc demo_decode_def
      FormatInt_100)

text \<open>
  C2 does not hold as the specification words it (every other filter parameter passed
  through unaltered): the caller asks for \<open>limit = 1\<close>, and the second request has no
  \<open>limit\<close>.
\<close>

theorem Iterate_params_counterexample:
  "map (\<lambda>r. req_params r ''limit'')
     (fetches (events_of (FeedbackItems_Iterate (Suc (Suc 0)) script_http demo_decode
        \<lparr>auth = ()\<rparr> ''b1'' [''limit'' \<mapsto> ''1''] [Inr [1, 100, 7, 8], Inr [0, 150, 9]])))
   = [Some ''1'', None]"
  by (simp add: FeedbackItems_Iterate_def FeedbackItems_Get_eq Let_def items_Suc
      demo_decode_def)

text \<open>
  C3 (what the code does). Let the service deliver one or more pages, all with
  \<open>HasMore\<close> true, and let the fetch after them fail: the transport fails, or its answer
  does not decode. Then \<open>Iterate\<close> has returned its channel, the channel has carried
  exactly the items of the pages delivered, in order, and nothing of the failed page;
  the channel is not closed; and the worker goroutine panics with the error of the
  fetch. No failure value travels on the channel.
\<close>

theorem Iterate_midstream_failure:
  assumes "pages \<noteq> []" and "\<forall>p\<in>set pages. HasMore p"
    and "map dec datas = map Inr pages"
    and "bad = Inl err \<or> (\<exists>d. bad = Inr d \<and> dec d = Inl err)"
    and "length pages \<le> n"
  shows "outcome_of (FeedbackItems_Iterate n script_http dec f buttonID params
            (map Inr datas @ bad # rest)) = Returns (Panicked err)
    \<and> filter on_channel (events_of (FeedbackItems_Iterate n script_http dec f buttonID params
            (map Inr datas @ bad # rest))) = map Send (concat (map Items pages))
    \<and> world_of (FeedbackItems_Iterate n script_http dec f buttonID params
            (map Inr datas @ bad # rest)) = rest"
proof -
  from assms(1) obtain p ps where pages: "pages = p # ps" by (cases pages) auto
  with assms(3) obtain d ds
    where datas: "datas = d # ds" "dec d = Inr p" "map dec ds = map Inr ps"
    by (cases datas) auto
  have "\<forall>q\<in>set (p # ps). HasMore q" "length ps < n"
    using assms pages by auto
  from items_script_panicked [OF this(1) datas(3) assms(4) this(2), of f buttonID rest]
  show ?thesis
    using pages datas
    by (simp add: FeedbackItems_Iterate_def FeedbackItems_Get_eq Let_def case_prod_beta)
qed

text \<open>
  C3 on an example: the second answer does not decode; the consumer has received 7 and
  8, and the worker panics with the decoder's error.
\<close>

theorem Iterate_midstream_failure_witness:
  "outcome_of (FeedbackItems_Iterate 1 script_http demo_decode \<lparr>auth = ()\<rparr> ''b1'' Map.empty
      [Inr [1, 100, 7, 8], Inr []]) = Returns (Panicked ''unexpected end of JSON input'')
   \<and> filter on_channel (events_of (FeedbackItems_Iterate 1 script_http demo_decode
      \<lparr>auth = ()\<rparr> ''b1'' Map.empty [Inr [1, 100, 7, 8], Inr []]))
     = [Send 7, Send 8]"
  using Iterate_midstream_failure [of
      "[\<lparr>Items = [7, 8], HasMore = True, LastTimestamp = 100\<rparr>]"
      demo_decode "[[1, 100, 7, 8]]" "Inr []" "''unexpected end of JSON input''" 1
      "\<lparr>auth = ()\<rparr>" "''b1''" Map.empty "[]"]
  by (simp add: demo_decode_def)

text \<open>
  C3 does not hold as the specification words it (a terminal failure signal that the
  consumer observes on the channel): when the second fetch times out, the events of the
  channel are the two sends of the first page and nothing after them, not even a close;
  the run ends with the panic of a worker goroutine, which in Go ends the process.
\<close>

theorem Iterate_midstream_failure_counterexample:
  "outcome_of (FeedbackItems_Iterate (Suc 0) script_http demo_decode \<lparr>auth = ()\<rparr> ''b1''
      Map.empty [Inr [1, 100, 7, 8], Inl ''timeout'']) = Returns (Panicked ''timeout'')
   \<and> filter on_channel (events_of (FeedbackItems_Iterate (Suc 0) script_http demo_decode
      \<lparr>auth = ()\<rparr> ''b1'' Map.empty [Inr [1, 100, 7, 8], Inl ''timeout'']))
     = [Send 7, Send 8]"
  by (simp add: FeedbackItems_Iterate_def FeedbackItems_Get_eq Let_def items_Suc
      demo_decode_def)

text \<open>
  C4. In every run of \<open>Iterate\<close>, whatever the service answers and however many workers
  are followed, the monitor for bounded fetch-ahead is never violated: a request is
  issued only when no request is outstanding and every item of the page fetched last
  has been handed to the consumer.
\<close>

theorem Iterate_no_fetch_ahead:
  "fetch_monitor dec (False, [])
     (events_of (FeedbackItems_Iterate n http dec f buttonID params w)) \<noteq> None"
  using items_monitor [of dec _ n http f buttonID]
  by (auto simp: FeedbackItems_Iterate_def FeedbackItems_Get_eq Let_def case_prod_beta
      page_items_def split: call.splits sum.splits)

text \<open>
  C4 on an example: the run over two pages leaves the monitor with no fetch outstanding
  and no item pending.
\<close>

theorem Iterate_no_fetch_ahead_witness:
  "fetch_monitor demo_decode (False, [])
     (events_of (FeedbackItems_Iterate (Suc (Suc 0)) script_http demo_decode
        \<lparr>auth = ()\<rparr> ''b1'' Map.empty [Inr [1, 100, 7, 8], Inr [0, 150, 9]]))
   = Some (False, [])"
  using Iterate_no_fetch_ahead [of demo_decode "Suc (Suc 0)" script_http "\<lparr>auth = ()\<rparr>"
      "''b1''" Map.empty "[Inr [1, 100, 7, 8], Inr [0, 150, 9]]"]
  by (simp add: FeedbackItems_Iterate_def FeedbackItems_Get_eq Let_def items_Suc
      demo_decode_def page_items_def)

text \<open>
  C5 (what the code does). When the first \<open>Get\<close> of \<open>Iterate\<close> fails, by a panic on a
  transport error or by returning a decoding error, \<open>Iterate\<close> panics with that error on
  the caller's goroutine, after the one request of that \<open>Get\<close>: it returns nothing, and
  there is no channel event. The failure is synchronous, but it is a panic: \<open>Iterate\<close>
  has no error result.
\<close>

theorem Iterate_initial_failure:
  assumes "outcome_of (FeedbackItems_Get http dec f buttonID params w) = Panics err
    \<or> outcome_of (FeedbackItems_Get http dec f buttonID params w) = Returns (Inl err)"
  shows "FeedbackItems_Iterate n http dec f buttonID params w =
      (Panics err, events_of (FeedbackItems_Get http dec f buttonID params w),
       world_of (FeedbackItems_Get http dec f buttonID params w))
    \<and> filter on_channel (events_of (FeedbackItems_Iterate n http dec f buttonID params w)) = []"
  using assms
  by (auto simp: FeedbackItems_Iterate_def FeedbackItems_Get_eq Let_def
      split: call.splits sum.splits prod.splits)

text \<open>
  C5 on an example: the first answer does not decode, and \<open>Iterate\<close> panics with the
  decoder's error after its one request.
\<close>

theorem Iterate_initial_failure_witness:
  "FeedbackItems_Iterate 3 script_http demo_decode \<lparr>auth = ()\<rparr> ''b1'' Map.empty [Inr [1]] =
     (Panics ''unexpected end of JSON input'',
      [Fetch \<lparr>req_method = ''GET'', req_auth = (),
              req_uri = ''/live/websites/button/b1/feedback'', req_params = Map.empty\<rparr>,
       Reply (Inr [1])], [])"
  using Iterate_initial_failure [of script_http demo_decode "\<lparr>auth = ()\<rparr>" "''b1''"
      Map.empty "[Inr [1]]" "''unexpected end of JSON input''" 3]
  by (simp add: FeedbackItems_Get_eq Let_def demo_decode_def Sprintf_feedbackURI buttonURI_def
      websitesURI_def)

text \<open>
  C5 does not hold as the specification words it (the failure returned as an error
  value): on a timeout of the first fetch the call of \<open>Iterate\<close> panics and returns no
  value at all.
\<close>

theorem Iterate_initial_failure_counterexample:
  "outcome_of (FeedbackItems_Iterate 3 script_http demo_decode \<lparr>auth = ()\<rparr> ''b1'' Map.empty
      [Inl ''timeout'']) = Panics ''timeout''
   \<and> \<not> (\<exists>out. outcome_of (FeedbackItems_Iterate 3 script_http demo_decode \<lparr>auth = ()\<rparr>
      ''b1'' Map.empty [Inl ''timeout'']) = Returns out)"
  by (simp add: FeedbackItems_Iterate_def FeedbackItems_Get_eq Let_def)

text \<open>
  C6. A worker whose page has no items and \<open>HasMore\<close> true issues one request, to the
  feedback URI of its button with \<open>since\<close> set to the page's \<open>LastTimestamp\<close>, and its
  events are those of that fetch followed by the events of its successor on the next
  page: nothing is sent and nothing is closed for the empty page. Its outcome is that
  of its successor, or a panic when the fetch fails; the empty page never ends the
  stream.
\<close>

theorem items_empty_page:
  assumes "Items resp = []" and "HasMore resp"
  shows "fetches (events_of (FeedbackItems_Get http dec f buttonID
            [''since'' \<mapsto> FormatInt (LastTimestamp resp) 10] w))
      = [\<lparr>req_method = ''GET'', req_auth = auth f,
          req_uri = ''/live/websites/button/'' @ buttonID @ ''/feedback'',
          req_params = [''since'' \<mapsto> FormatInt (LastTimestamp resp) 10]\<rparr>]
    \<and> events_of (items (Suc n) http dec resp f buttonID w)
      = events_of (FeedbackItems_Get http dec f buttonID
            [''since'' \<mapsto> FormatInt (LastTimestamp resp) 10] w)
        @ (case outcome_of (FeedbackItems_Get http dec f buttonID
                  [''since'' \<mapsto> FormatInt (LastTimestamp resp) 10] w) of
             Returns (Inr resp') \<Rightarrow>
               events_of (items n http dec resp' f buttonID
                 (world_of (FeedbackItems_Get http dec f buttonID
                    [''since'' \<mapsto> FormatInt (LastTimestamp resp) 10] w)))
           | Returns (Inl err) \<Rightarrow> []
           | Panics err \<Rightarrow> [])
    \<and> outcome_of (items (Suc n) http dec resp f buttonID w)
      = (case outcome_of (FeedbackItems_Get http dec f buttonID
                  [''since'' \<mapsto> FormatInt (LastTimestamp resp) 10] w) of
             Returns (Inr resp') \<Rightarrow>
               outcome_of (items n http dec resp' f buttonID
                 (world_of (FeedbackItems_Get http dec f buttonID
                    [''since'' \<mapsto> FormatInt (LastTimestamp resp) 10] w)))
           | Returns (Inl err) \<Rightarrow> Panicked err
           | Panics err \<Rightarrow> Panicked err)"
  using assms
  by (simp add: items_Suc Let_def FeedbackItems_Get_eq Sprintf_feedbackURI buttonURI_def
      websitesURI_def split: call.splits sum.splits)

text \<open>
  C6 on an example: after an empty page with watermark 100 the worker fetches with
  \<open>since = 100\<close>, and the stream goes on with the item of the next page.
\<close>

theorem items_empty_page_witness:
  "events_of (items (Suc (Suc 0)) script_http demo_decode
      \<lparr>Items = [], HasMore = True, LastTimestamp = 100\<rparr> \<lparr>auth = ()\<rparr> ''b1''
      [Inr [0, 150, 9]])
   = [Fetch \<lparr>req_method = ''GET'', req_auth = (),
             req_uri = ''/live/websites/button/b1/feedback'',
             req_params = [''since'' \<mapsto> ''100'']\<rparr>,
      Reply (Inr [0, 150, 9]), Send 9, Close]
   \<and> outcome_of (items (Suc (Suc 0)) script_http demo_decode
      \<lparr>Items = [], HasMore = True, LastTimestamp = 100\<rparr> \<lparr>auth = ()\<rparr> ''b1''
      [Inr [0, 150, 9]]) = Closed"
  using items_empty_page [of "\<lparr>Items = [], HasMore = True, LastTimestamp = 100\<rparr>"
      script_http demo_decode "\<lparr>auth = ()\<rparr>" "''b1''" "[Inr [0, 150, 9]]" "Suc 0"]
  by (simp add: FeedbackItems_Get_eq Let_def items_Suc demo_decode_def FormatInt_100
      Sprintf_feedbackURI buttonURI_def websitesURI_def)

text \<open>
  C7. At every request of a run of \<open>Iterate\<close>, whatever the service answers: the items
  handed to the consumer so far are exactly the items of all pages delivered so far, in
  order, and once a page has been delivered the request carries as \<open>since\<close> the
  \<open>LastTimestamp\<close> of the page delivered last. The cursor moves to a page's watermark
  only when every item up to and including that page has been handed over.
\<close>

theorem Iterate_cursor_after_delivery:
  "list_all
     (\<lambda>(pre, r). received pre = concat (map Items (pages_got dec pre))
        \<and> (pages_got dec pre = []
           \<or> req_params r ''since''
               = Some (FormatInt (LastTimestamp (last (pages_got dec pre))) 10)))
     (fetch_points [] (events_of (FeedbackItems_Iterate n http dec f buttonID params w)))"
  by (rule list_all_weaken [OF Iterate_fetch_points]) (auto split: if_splits)

text \<open>
  C7 on an example: the first request is issued with nothing received and no \<open>since\<close>,
  the second with 7 and 8 received and \<open>since = 100\<close>.
\<close>

theorem Iterate_cursor_after_delivery_witness:
  "map (\<lambda>(pre, r). (received pre, req_params r ''since''))
     (fetch_points [] (events_of (FeedbackItems_Iterate (Suc (Suc 0)) script_http demo_decode
        \<lparr>auth = ()\<rparr> ''b1'' Map.empty [Inr [1, 100, 7, 8], Inr [0, 150, 9]])))
   = [([], None), ([7, 8], Some ''100'')]"
  using Iterate_cursor_after_delivery [of demo_decode "Suc (Suc 0)" script_http
      "\<lparr>auth = ()\<rparr>" "''b1''" Map.empty "[Inr [1, 100, 7, 8], Inr [0, 150, 9]]"]
  by (simp add: FeedbackItems_Iterate_def FeedbackItems_Get_eq Let_def items_Suc
      demo_decode_def FormatInt_100)

text \<open>
  C8. Each of the four per-resource \<open>Get\<close> methods applies the transport once, to the
  request it builds: a GET with the credentials of the resource, the given parameter
  map unchanged, and the URI \<open>/live/websites/button/{id}/feedback\<close> for button feedback,
  \<open>/live/apps/{id}/feedback\<close> for app feedback,
  \<open>/live/websites/campaign/{id}/results\<close> for campaign results and
  \<open>/live/websites/campaign/{id}/stats\<close> for campaign statistics. Its events are this
  request and the transport's answer to it, its outcome is made of that answer, and the
  service is left in the state the transport returns for it.
\<close>

theorem Get_request_uris:
  "FeedbackItems_Get http dec1 f buttonID params w =
     (let request = \<lparr>req_method = ''GET'', req_auth = auth f,
                     req_uri = ''/live/websites/button/'' @ buttonID @ ''/feedback'',
                     req_params = params\<rparr>;
          t = fst (http w request)
      in ((case t of Inl err \<Rightarrow> Panics err | Inr data \<Rightarrow> Returns (dec1 data)),
          [Fetch request, Reply t], snd (http w request)))
   \<and> AppFeedbackItems_Get http dec2 af appID params w =
     (let request = \<lparr>req_method = ''GET'', req_auth = auth af,
                     req_uri = ''/live/apps/'' @ appID @ ''/feedback'',
                     req_params = params\<rparr>;
          t = fst (http w request)
      in ((case t of Inl err \<Rightarrow> Panics err | Inr data \<Rightarrow> Returns (dec2 data)),
          [Fetch request, Reply t], snd (http w request)))
   \<and> CampaignResults_Get http dec3 r campaignID params w =
     (let request = \<lparr>req_method = ''GET'', req_auth = auth r,
                     req_uri = ''/live/websites/campaign/'' @ campaignID @ ''/results'',
                     req_params = params\<rparr>;
          t = fst (http w request)
      in ((case t of Inl err \<Rightarrow> Panics err | Inr data \<Rightarrow> Returns (dec3 data)),
          [Fetch request, Reply t], snd (http w request)))
   \<and> CampaignStats_Get http dec4 cs campaignID' params w =
     (let request = \<lparr>req_method = ''GET'', req_auth = auth cs,
                     req_uri = ''/live/websites/campaign/'' @ campaignID' @ ''/stats'',
                     req_params = params\<rparr>;
          t = fst (http w request)
      in ((case t of Inl err \<Rightarrow> Panics err | Inr data \<Rightarrow> Returns (dec4 data)),
          [Fetch request, Reply t], snd (http w request)))"
  by (simp add: FeedbackItems_Get_eq AppFeedbackItems_Get_eq CampaignResults_Get_eq
      CampaignStats_Get_eq Sprintf_feedbackURI Sprintf_campaignResultsURI
      Sprintf_campaignStatsURI buttonURI_def websitesURI_def appsURI_def)

text \<open>
  C8 on an example: button \<open>b1\<close> and campaign \<open>c7\<close>, with \<open>limit = 2\<close>, against a
  service with two answers left: the first is consumed for the request, the second
  stays.
\<close>

theorem Get_request_uris_witness:
  "FeedbackItems_Get script_http demo_decode \<lparr>auth = ()\<rparr> ''b1'' [''limit'' \<mapsto> ''2'']
      [Inr [0, 150, 9], Inl ''timeout'']
     = (Returns (Inr \<lparr>Items = [9], HasMore = False, LastTimestamp = 150\<rparr>),
        [Fetch \<lparr>req_method = ''GET'', req_auth = (),
                req_uri = ''/live/websites/button/b1/feedback'',
                req_params = [''limit'' \<mapsto> ''2'']\<rparr>,
         Reply (Inr [0, 150, 9])],
        [Inl ''timeout''])
   \<and> CampaignStats_Get script_http demo_decode \<lparr>auth = ()\<rparr> ''c7'' [''limit'' \<mapsto> ''2'']
      [Inr [0, 150, 9], Inl ''timeout'']
     = (Returns (Inr \<lparr>Items = [9], HasMore = False, LastTimestamp = 150\<rparr>),
        [Fetch \<lparr>req_method = ''GET'', req_auth = (),
                req_uri = ''/live/websites/campaign/c7/stats'',
                req_params = [''limit'' \<mapsto> ''2'']\<rparr>,
         Reply (Inr [0, 150, 9])],
        [Inl ''timeout''])"
  using Get_request_uris [of script_http demo_decode "\<lparr>auth = ()\<rparr>" "''b1''"
      "[''limit'' \<mapsto> ''2'']" "[Inr [0, 150, 9], Inl ''timeout'']" demo_decode
      "\<lparr>auth = ()\<rparr>" "''a1''" demo_decode "\<lparr>auth = ()\<rparr>" "''c3''" demo_decode
      "\<lparr>auth = ()\<rparr>" "''c7''"]
  by (simp add: Let_def demo_decode_def)

text \<open>
  C9. Against a service that looks only at the query parameters of a request, from the
  same state of the service, with the same decoder and the same first page, the
  workers \<open>campaignResults\<close>, \<open>campaignStats\<close> and \<open>appItems\<close> have the same abstract run
  as \<open>items\<close>, for every number of workers followed: the same outcome, the same
  events (requests compared by their parameters, so up to the URI and the
  credentials), the same final state of the service.
\<close>

theorem workers_equivalent:
  "abstract_run (campaignResults n (by_params srv) dec resp r campaignID w)
     = abstract_run (items n (by_params srv) dec resp f buttonID w)
   \<and> abstract_run (campaignStats n (by_params srv) dec resp cs campaignID' w)
     = abstract_run (items n (by_params srv) dec resp f buttonID w)
   \<and> abstract_run (appItems n (by_params srv) dec resp af appID w)
     = abstract_run (items n (by_params srv) dec resp f buttonID w)"
  by (simp add: campaignResults_items [of n srv dec resp r campaignID w f buttonID]
      campaignStats_items [of n srv dec resp cs campaignID' w f buttonID]
      appItems_items [of n srv dec resp af appID w f buttonID])

text \<open>
  C9 on an example: \<open>appItems\<close> and \<open>items\<close> over a page with item 7 and a last page
  with item 9.
\<close>

theorem workers_equivalent_witness:
  "abstract_run (appItems (Suc (Suc 0))
      (by_params (\<lambda>w p. case w of [] \<Rightarrow> (Inl ''EOF'', []) | a # as \<Rightarrow> (a, as)))
      demo_decode \<lparr>Items = [7], HasMore = True, LastTimestamp = 100\<rparr> \<lparr>auth = ()\<rparr> ''a1''
      [Inr [0, 150, 9]])
   = abstract_run (items (Suc (Suc 0))
      (by_params (\<lambda>w p. case w of [] \<Rightarrow> (Inl ''EOF'', []) | a # as \<Rightarrow> (a, as)))
      demo_decode \<lparr>Items = [7], HasMore = True, LastTimestamp = 100\<rparr> \<lparr>auth = ()\<rparr> ''b1''
      [Inr [0, 150, 9]])
   \<and> abstract_run (items (Suc (Suc 0))
      (by_params (\<lambda>w p. case w of [] \<Rightarrow> (Inl ''EOF'', []) | a # as \<Rightarrow> (a, as)))
      demo_decode \<lparr>Items = [7], HasMore = True, LastTimestamp = 100\<rparr> \<lparr>auth = ()\<rparr> ''b1''
      [Inr [0, 150, 9]])
   = (Closed, [Send 7, Fetch [''since'' \<mapsto> ''100''], Reply (Inr [0, 150, 9]), Send 9, Close],
      [])"
  using workers_equivalent [of "Suc (Suc 0)"
      "\<lambda>w p. case w of [] \<Rightarrow> (Inl ''EOF'', []) | a # as \<Rightarrow> (a, as)" demo_decode
      "\<lparr>Items = [7], HasMore = True, LastTimestamp = 100\<rparr>" "\<lparr>auth = ()\<rparr>" "''c1''"
      "[Inr [0, 150, 9]]" "\<lparr>auth = ()\<rparr>" "''b1''" "\<lparr>auth = ()\<rparr>" "''c2''"
      "\<lparr>auth = ()\<rparr>" "''a1''"]
  by (simp add: abstract_run_def items_Suc FeedbackItems_Get_eq by_params_def Let_def
      demo_decode_def FormatInt_100)

text \<open>
  C10. For each of the eight public \<open>Get\<close> methods and the request it builds: when the
  transport answers that request with an error, the call panics with that error, so
  the caller receives no value and no error; and when the call returns an error, the
  transport answered the request with data and the error is what the decoder of the
  response made of that data.
\<close>

theorem Get_transport_error_panics:
  "(fst (http w \<lparr>req_method = ''GET'', req_auth = auth b,
           req_uri = buttonURI, req_params = params\<rparr>) = Inl err
       \<longrightarrow> outcome_of (Buttons_Get http dec1 b params w) = Panics err)
   \<and> (outcome_of (Buttons_Get http dec1 b params w) = Returns (Inl err)
       \<longrightarrow> (\<exists>data. fst (http w \<lparr>req_method = ''GET'', req_auth = auth b,
           req_uri = buttonURI, req_params = params\<rparr>) = Inr data
             \<and> dec1 data = Inl err))
   \<and> (fst (http w \<lparr>req_method = ''GET'', req_auth = auth f,
           req_uri = Sprintf feedbackURI [buttonURI, buttonID], req_params = params\<rparr>) = Inl err
       \<longrightarrow> outcome_of (FeedbackItems_Get http dec2 f buttonID params w) = Panics err)
   \<and> (outcome_of (FeedbackItems_Get http dec2 f buttonID params w) = Returns (Inl err)
       \<longrightarrow> (\<exists>data. fst (http w \<lparr>req_method = ''GET'', req_auth = auth f,
           req_uri = Sprintf feedbackURI [buttonURI, buttonID], req_params = params\<rparr>) = Inr data
             \<and> dec2 data = Inl err))
   \<and> (fst (http w \<lparr>req_method = ''GET'', req_auth = auth c,
           req_uri = campaignURI, req_params = params\<rparr>) = Inl err
       \<longrightarrow> outcome_of (Campaigns_Get http dec3 c params w) = Panics err)
   \<and> (outcome_of (Campaigns_Get http dec3 c params w) = Returns (Inl err)
       \<longrightarrow> (\<exists>data. fst (http w \<lparr>req_method = ''GET'', req_auth = auth c,
           req_uri = campaignURI, req_params = params\<rparr>) = Inr data
             \<and> dec3 data = Inl err))
   \<and> (fst (http w \<lparr>req_method = ''GET'', req_auth = auth r,
           req_uri = Sprintf campaignResultsURI [campaignID], req_params = params\<rparr>) = Inl err
       \<longrightarrow> outcome_of (CampaignResults_Get http dec4 r campaignID params w) = Panics err)
   \<and> (outcome_of (CampaignResults_Get http dec4 r campaignID params w) = Returns (Inl err)
       \<longrightarrow> (\<exists>data. fst (http w \<lparr>req_method = ''GET'', req_auth = auth r,
           req_uri = Sprintf campaignResultsURI [campaignID], req_params = params\<rparr>) = Inr data
             \<and> dec4 data = Inl err))
   \<and> (fst (http w \<lparr>req_method = ''GET'', req_auth = auth cs,
           req_uri = Sprintf campaignStatsURI [campaignID], req_params = params\<rparr>) = Inl err
       \<longrightarrow> outcome_of (CampaignStats_Get http dec5 cs campaignID params w) = Panics err)
   \<and> (outcome_of (CampaignStats_Get http dec5 cs campaignID params w) = Returns (Inl err)
       \<longrightarrow> (\<exists>data. fst (http w \<lparr>req_method = ''GET'', req_auth = auth cs,
           req_uri = Sprintf campaignStatsURI [campaignID], req_params = params\<rparr>) = Inr data
             \<and> dec5 data = Inl err))
   \<and> (fst (http w \<lparr>req_method = ''GET'', req_auth = auth a,
           req_uri = appsURI, req_params = params\<rparr>) = Inl err
       \<longrightarrow> outcome_of (Apps_Get http dec6 a params w) = Panics err)
   \<and> (outcome_of (Apps_Get http dec6 a params w) = Returns (Inl err)
       \<longrightarrow> (\<exists>data. fst (http w \<lparr>req_method = ''GET'', req_auth = auth a,
           req_uri = appsURI, req_params = params\<rparr>) = Inr data
             \<and> dec6 data = Inl err))
   \<and> (fst (http w \<lparr>req_method = ''GET'', req_auth = auth af,
           req_uri = Sprintf feedbackURI [appsURI, appID], req_params = params\<rparr>) = Inl err
       \<longrightarrow> outcome_of (AppFeedbackItems_Get http dec7 af appID params w) = Panics err)
   \<and> (outcome_of (AppFeedbackItems_Get http dec7 af appID params w) = Returns (Inl err)
       \<longrightarrow> (\<exists>data. fst (http w \<lparr>req_method = ''GET'', req_auth = auth af,
           req_uri = Sprintf feedbackURI [appsURI, appID], req_params = params\<rparr>) = Inr data
             \<and> dec7 data = Inl err))
   \<and> (fst (http w \<lparr>req_method = ''GET'', req_auth = auth eb,
           req_uri = emailButtonURI, req_params = params\<rparr>) = Inl err
       \<longrightarrow> outcome_of (EmailButtons_Get http dec8 eb params w) = Panics err)
   \<and> (outcome_of (EmailButtons_Get http dec8 eb params w) = Returns (Inl err)
       \<longrightarrow> (\<exists>data. fst (http w \<lparr>req_method = ''GET'', req_auth = auth eb,
           req_uri = emailButtonURI, req_params = params\<rparr>) = Inr data
             \<and> dec8 data = Inl err))"
  by (intro conjI Buttons_Get_panics [THEN conjunct1] Buttons_Get_panics [THEN conjunct2]
      FeedbackItems_Get_panics [THEN conjunct1] FeedbackItems_Get_panics [THEN conjunct2]
      Campaigns_Get_panics [THEN conjunct1] Campaigns_Get_panics [THEN conjunct2]
      CampaignResults_Get_panics [THEN conjunct1] CampaignResults_Get_panics [THEN conjunct2]
      CampaignStats_Get_panics [THEN conjunct1] CampaignStats_Get_panics [THEN conjunct2]
      Apps_Get_panics [THEN conjunct1] Apps_Get_panics [THEN conjunct2]
      AppFeedbackItems_Get_panics [THEN conjunct1] AppFeedbackItems_Get_panics [THEN conjunct2]
      EmailButtons_Get_panics [THEN conjunct1] EmailButtons_Get_panics [THEN conjunct2])

text \<open>
  C10 on an example: on a timeout of the transport \<open>Buttons.Get\<close>, \<open>Apps.Get\<close> and
  \<open>FeedbackItems.Get\<close> panic with the timeout; and where \<open>FeedbackItems.Get\<close> returns
  an error, the transport delivered data that the decoder refused.
\<close>

theorem Get_transport_error_panics_witness:
  "outcome_of (Buttons_Get script_http demo_decode \<lparr>auth = ()\<rparr> Map.empty
      [Inl ''timeout''] :: _ \<times> (unit, unit) events \<times> _) = Panics ''timeout''
   \<and> outcome_of (Apps_Get script_http demo_decode \<lparr>auth = ()\<rparr> Map.empty
      [Inl ''timeout''] :: _ \<times> (unit, unit) events \<times> _) = Panics ''timeout''
   \<and> outcome_of (FeedbackItems_Get script_http demo_decode \<lparr>auth = ()\<rparr> ''b1'' Map.empty
      [Inl ''timeout'']) = Panics ''timeout''
   \<and> (\<exists>data. fst (script_http [Inr [1]]
          \<lparr>req_method = ''GET'', req_auth = auth \<lparr>auth = ()\<rparr>,
             req_uri = Sprintf feedbackURI [buttonURI, ''b1''], req_params = Map.empty\<rparr>)
        = Inr data \<and> demo_decode data = Inl ''unexpected end of JSON input'')"
proof (intro conjI)
  show "\<exists>data. fst (script_http [Inr [1]]
          \<lparr>req_method = ''GET'', req_auth = auth \<lparr>auth = ()\<rparr>,
             req_uri = Sprintf feedbackURI [buttonURI, ''b1''], req_params = Map.empty\<rparr>)
        = Inr data \<and> demo_decode data = Inl ''unexpected end of JSON input''"
    by (rule Get_transport_error_panics [THEN conjunct2, THEN conjunct2, THEN conjunct2,
          THEN conjunct1, THEN mp])
      (simp add: FeedbackItems_Get_eq Let_def demo_decode_def)
  show "outcome_of (Buttons_Get script_http demo_decode \<lparr>auth = ()\<rparr> Map.empty
      [Inl ''timeout''] :: _ \<times> (unit, unit) events \<times> _) = Panics ''timeout''"
    by (rule Get_transport_error_panics [THEN conjunct1, THEN mp]) simp
  show "outcome_of (Apps_Get script_http demo_decode \<lparr>auth = ()\<rparr> Map.empty
      [Inl ''timeout''] :: _ \<times> (unit, unit) events \<times> _) = Panics ''timeout''"
    by (rule Get_transport_error_panics [THEN conjunct2, THEN conjunct2, THEN conjunct2,
          THEN conjunct2, THEN conjunct2, THEN conjunct2, THEN conjunct2, THEN conjunct2,
          THEN conjunct2, THEN conjunct2, THEN conjunct1, THEN mp]) simp
  show "outcome_of (FeedbackItems_Get script_http demo_decode \<lparr>auth = ()\<rparr> ''b1'' Map.empty
      [Inl ''timeout'']) = Panics ''timeout''"
    by (rule Get_transport_error_panics [THEN conjunct2, THEN conjunct2, THEN conjunct1,
          THEN mp]) simp
qed

end
